theory Spec2Isabelle
  imports Complex_Main "HOL-Library.Sublist"
begin

text \<open>
  A shallow embedding of the client logic of the medical-supplies inventory application:
  the view-model transform, the list filter and the submit handler of
  \<open>MedicalSuppliesPage\<close>, its role gate, and the role assignment of \<open>AdminUsersPage\<close>.
  Remote calls are modelled by the answers they may give; the handlers are functions from
  those answers and the component state to the new component state.
\<close>

section \<open>JavaScript values and operators used by the inventory page\<close>

text \<open>
  The rows that come back from the relational store are JSON objects whose columns may be
  null, so a column of a row is an \<open>option\<close>: \<open>None\<close> stands for both \<open>null\<close> and
  \<open>undefined\<close> (the operators \<open>||\<close>, \<open>??\<close> and \<open>!\<close> used by the page treat the two alike).
  A number is the mathematical value of the JSON number; the page only tests numbers for
  being zero and passes them on, it never computes with them. \<open>NaN\<close> does not occur: rows
  are JSON, and the form stores \<open>parseInt(v) || 0\<close> and \<open>parseFloat(v) || 0\<close>.
\<close>

type_synonym number = real

text \<open>\<open>x || d\<close> for a nullable string, number and boolean: \<open>d\<close> replaces every falsy \<open>x\<close>.\<close>

definition truthy_str :: "string option \<Rightarrow> bool" where
  "truthy_str x = (case x of None \<Rightarrow> False | Some s \<Rightarrow> s \<noteq> [])"

definition truthy_num :: "number option \<Rightarrow> bool" where
  "truthy_num x = (case x of None \<Rightarrow> False | Some v \<Rightarrow> v \<noteq> 0)"

definition or_str :: "string option \<Rightarrow> string \<Rightarrow> string" where
  "or_str x d = (case x of None \<Rightarrow> d | Some s \<Rightarrow> if s = [] then d else s)"

definition or_num :: "number option \<Rightarrow> number \<Rightarrow> number" where
  "or_num x d = (case x of None \<Rightarrow> d | Some v \<Rightarrow> if v = 0 then d else v)"

definition or_bool :: "bool option \<Rightarrow> bool \<Rightarrow> bool" where
  "or_bool x d = (case x of None \<Rightarrow> d | Some b \<Rightarrow> if b then b else d)"

text \<open>\<open>x || y\<close> where \<open>y\<close> may itself be absent (\<open>formData.name || editingItem.name\<close>).\<close>

definition or_str_opt :: "string option \<Rightarrow> string option \<Rightarrow> string option" where
  "or_str_opt x y = (if truthy_str x then x else y)"

text \<open>\<open>x ?? d\<close>: only an absent \<open>x\<close> is replaced.\<close>

definition nullish :: "'a option \<Rightarrow> 'a \<Rightarrow> 'a" where
  "nullish x d = (case x of None \<Rightarrow> d | Some v \<Rightarrow> v)"

section \<open>Data model\<close>

text \<open>
  The storage payload \<open>databaseData\<close> (snake case, no id) and a stored row (the payload's
  columns plus the id the store assigned). Columns that the view model also has under the
  same name carry the prefix \<open>row_\<close>.
\<close>

record dbdata =
  row_name :: "string option"
  row_description :: "string option"
  lot_number :: "string option"
  expires_on :: "string option"
  row_quantity :: "number option"
  image_url :: "string option"
  is_expired :: "bool option"
  type_of_supply :: "string option"
  pallet_location :: "string option"
  row_company :: "string option"
  cardboard_boxes_per_pallet :: "number option"
  unit_boxes_per_cardboard :: "number option"
  units_per_box :: "number option"
  weight_per_cardboard_box :: "number option"
  dimensions_cardboard_box :: "string option"
  cost_per_unit_box :: "number option"
  cost_per_cardboard_box :: "number option"
  relevant_link :: "string option"
  other_notes :: "string option"

record row = dbdata +
  row_id :: string

text \<open>
  \<open>interface SupplyItem\<close>. The interface declares \<open>name: string\<close>, but every place that
  builds an item from a row writes \<open>name: row.name\<close> with no default, and the row is typed
  \<open>any\<close>; so at run time the name of an item is whatever the row held, possibly nothing.
  The id is passed through likewise; it is the key the store assigns and is always there.
\<close>

record SupplyItem =
  item_id :: string
  name :: "string option"
  description :: string
  lotNumber :: string
  expiresOn :: string
  quantity :: number
  imageUrl :: string
  isExpired :: bool
  typeOfSupply :: string
  palletLocation :: string
  company :: string
  cardboardBoxesPerPallet :: number
  unitBoxesPerCardboard :: number
  unitsPerBox :: number
  weightPerCardboardBox :: number
  dimensionsCardboardBox :: string
  costPerUnitBox :: number
  costPerCardboardBox :: number
  relevantLink :: string
  otherNotes :: string

text \<open>\<open>Partial<SupplyItem>\<close>, the type of \<open>formData\<close>: every field may be undefined.\<close>

record draft =
  fd_id :: "string option"
  fd_name :: "string option"
  fd_description :: "string option"
  fd_lotNumber :: "string option"
  fd_expiresOn :: "string option"
  fd_quantity :: "number option"
  fd_imageUrl :: "string option"
  fd_isExpired :: "bool option"
  fd_typeOfSupply :: "string option"
  fd_palletLocation :: "string option"
  fd_company :: "string option"
  fd_cardboardBoxesPerPallet :: "number option"
  fd_unitBoxesPerCardboard :: "number option"
  fd_unitsPerBox :: "number option"
  fd_weightPerCardboardBox :: "number option"
  fd_dimensionsCardboardBox :: "string option"
  fd_costPerUnitBox :: "number option"
  fd_costPerCardboardBox :: "number option"
  fd_relevantLink :: "string option"
  fd_otherNotes :: "string option"

section \<open>View-model transform\<close>

text \<open>
  The function mapped over the fetched rows in \<open>fetchItems\<close>:
  \<^verbatim>\<open>data.map((item: any) => ({ id: item.id, name: item.name,
     description: item.description || "", ..., expiresOn: item.expires_on || "2025-12-31",
     quantity: item.quantity || 0, imageUrl: item.image_url || "/logo.png", ... }))\<close>
\<close>

definition toViewModel :: "row \<Rightarrow> SupplyItem" where
  "toViewModel item = \<lparr>
     item_id = row_id item,
     name = row_name item,
     description = or_str (row_description item) [],
     lotNumber = or_str (lot_number item) [],
     expiresOn = or_str (expires_on item) ''2025-12-31'',
     quantity = or_num (row_quantity item) 0,
     imageUrl = or_str (image_url item) ''/logo.png'',
     isExpired = or_bool (is_expired item) False,
     typeOfSupply = or_str (type_of_supply item) [],
     palletLocation = or_str (pallet_location item) [],
     company = or_str (row_company item) [],
     cardboardBoxesPerPallet = or_num (cardboard_boxes_per_pallet item) 0,
     unitBoxesPerCardboard = or_num (unit_boxes_per_cardboard item) 0,
     unitsPerBox = or_num (units_per_box item) 0,
     weightPerCardboardBox = or_num (weight_per_cardboard_box item) 0,
     dimensionsCardboardBox = or_str (dimensions_cardboard_box item) [],
     costPerUnitBox = or_num (cost_per_unit_box item) 0,
     costPerCardboardBox = or_num (cost_per_cardboard_box item) 0,
     relevantLink = or_str (relevant_link item) [],
     otherNotes = or_str (other_notes item) [] \<rparr>"

text \<open>A row that holds nothing but its id.\<close>

definition bare_row :: "string \<Rightarrow> row" where
  "bare_row i = \<lparr>
     row_name = None, row_description = None, lot_number = None, expires_on = None,
     row_quantity = None, image_url = None, is_expired = None, type_of_supply = None,
     pallet_location = None, row_company = None, cardboard_boxes_per_pallet = None,
     unit_boxes_per_cardboard = None, units_per_box = None,
     weight_per_cardboard_box = None, dimensions_cardboard_box = None,
     cost_per_unit_box = None, cost_per_cardboard_box = None, relevant_link = None,
     other_notes = None, row_id = i \<rparr>"

section \<open>String operations of the list filter\<close>

text \<open>
  A string stands for a JavaScript string through its UTF-8 encoding, one \<open>char\<close> per
  byte. Equality, concatenation, \<open>includes\<close> and \<open>split\<close> on well-formed strings are the
  same on the encoding as on the string itself.

  \<open>String.prototype.trim\<close> removes white space and line terminators from both ends. The
  code points it removes, with their encodings: U+0009 to U+000D, U+0020, U+00A0, U+1680,
  U+2000 to U+200A, U+2028, U+2029, U+202F, U+205F, U+3000 and U+FEFF.
\<close>

definition js_whitespace :: "string list" where
  "js_whitespace =
     [[CHR 0x09], [CHR 0x0A], [CHR 0x0B], [CHR 0x0C], [CHR 0x0D], [CHR 0x20],
      [CHR 0xC2, CHR 0xA0],
      [CHR 0xE1, CHR 0x9A, CHR 0x80],
      [CHR 0xE2, CHR 0x80, CHR 0x80], [CHR 0xE2, CHR 0x80, CHR 0x81],
      [CHR 0xE2, CHR 0x80, CHR 0x82], [CHR 0xE2, CHR 0x80, CHR 0x83],
      [CHR 0xE2, CHR 0x80, CHR 0x84], [CHR 0xE2, CHR 0x80, CHR 0x85],
      [CHR 0xE2, CHR 0x80, CHR 0x86], [CHR 0xE2, CHR 0x80, CHR 0x87],
      [CHR 0xE2, CHR 0x80, CHR 0x88], [CHR 0xE2, CHR 0x80, CHR 0x89],
      [CHR 0xE2, CHR 0x80, CHR 0x8A],
      [CHR 0xE2, CHR 0x80, CHR 0xA8], [CHR 0xE2, CHR 0x80, CHR 0xA9],
      [CHR 0xE2, CHR 0x80, CHR 0xAF],
      [CHR 0xE2, CHR 0x81, CHR 0x9F],
      [CHR 0xE3, CHR 0x80, CHR 0x80],
      [CHR 0xEF, CHR 0xBB, CHR 0xBF]]"

text \<open>
  Removing, as long as there is one, a leading token of a list of tokens from a string.
\<close>

function strip_tokens :: "'a list list \<Rightarrow> 'a list \<Rightarrow> 'a list" where
  "strip_tokens toks s =
     (case find (\<lambda>w. w \<noteq> [] \<and> prefix w s) toks of
        None \<Rightarrow> s
      | Some w \<Rightarrow> strip_tokens toks (drop (length w) s))"
  by pat_completeness auto
termination
  by (relation "measure (\<lambda>(toks, s). length s)") (auto simp: find_Some_iff prefix_def)

declare strip_tokens.simps [simp del]

definition trimStart :: "string \<Rightarrow> string" where
  "trimStart s = strip_tokens js_whitespace s"

definition trimEnd :: "string \<Rightarrow> string" where
  "trimEnd s = rev (strip_tokens (map rev js_whitespace) (rev s))"

definition trim :: "string \<Rightarrow> string" where
  "trim s = trimEnd (trimStart s)"

text \<open>
  \<open>String.prototype.toLowerCase\<close> is the platform's Unicode lower-casing, a table that is
  not written out here: the filter takes it as an argument \<open>lc\<close>, and what is proved of
  the filter holds for every such function. On text made of ASCII characters the platform
  function is \<open>ascii_lower\<close>, which is used to run the filter on such text.
\<close>

definition ascii_lower_char :: "char \<Rightarrow> char" where
  "ascii_lower_char c =
     (case map_of (zip ''ABCDEFGHIJKLMNOPQRSTUVWXYZ'' ''abcdefghijklmnopqrstuvwxyz'') c of
        None \<Rightarrow> c
      | Some l \<Rightarrow> l)"

definition ascii_lower :: "string \<Rightarrow> string" where
  "ascii_lower s = map ascii_lower_char s"

text \<open>\<open>s.includes(sub)\<close>: \<open>sub\<close> occurs in \<open>s\<close> as a contiguous block.\<close>

fun includes_js :: "string \<Rightarrow> string \<Rightarrow> bool" where
  "includes_js [] sub = (sub = [])"
| "includes_js (c # s) sub = (take (length sub) (c # s) = sub \<or> includes_js s sub)"

text \<open>\<open>s.split(c)\<close> for a one-character separator; the result is never empty.\<close>

fun split_js :: "char \<Rightarrow> string \<Rightarrow> string list" where
  "split_js c [] = [[]]"
| "split_js c (x # xs) =
     (if x = c then [] # split_js c xs
      else (case split_js c xs of [] \<Rightarrow> [[x]] | p # ps \<Rightarrow> (x # p) # ps))"

section \<open>List/filter engine\<close>

text \<open>
  The effect that recomputes \<open>filteredItems\<close>:
  \<^verbatim>\<open>items.filter((item) => {
     const matchesText = !searchQuery.trim()
       || item.name.toLowerCase().includes(searchQuery.toLowerCase())
       || item.typeOfSupply.toLowerCase().includes(searchQuery.toLowerCase());
     const matchesExpiry = expiredFilter === "all"
       || (expiredFilter === "expired" && item.isExpired)
       || (expiredFilter === "not-expired" && !item.isExpired);
     const matchesType = typeFilter === "all" || item.typeOfSupply === typeFilter;
     return matchesText && matchesExpiry && matchesType; })\<close>
  Calling \<open>toLowerCase\<close> on an absent name raises a \<open>TypeError\<close>; the \<open>||\<close> before it
  short-circuits, so a blank query never reaches it.
\<close>

datatype exn = TypeError

definition matchesText :: "(string \<Rightarrow> string) \<Rightarrow> string \<Rightarrow> SupplyItem \<Rightarrow> exn + bool" where
  "matchesText lc searchQuery item =
     (if trim searchQuery = [] then Inr True
      else (case name item of
              None \<Rightarrow> Inl TypeError
            | Some n \<Rightarrow>
                Inr (includes_js (lc n) (lc searchQuery) \<or>
                     includes_js (lc (typeOfSupply item)) (lc searchQuery))))"

definition matchesExpiry :: "string \<Rightarrow> SupplyItem \<Rightarrow> bool" where
  "matchesExpiry expiredFilter item =
     (expiredFilter = ''all'' \<or>
      (expiredFilter = ''expired'' \<and> isExpired item) \<or>
      (expiredFilter = ''not-expired'' \<and> \<not> isExpired item))"

definition matchesType :: "string \<Rightarrow> SupplyItem \<Rightarrow> bool" where
  "matchesType typeFilter item = (typeFilter = ''all'' \<or> typeOfSupply item = typeFilter)"

definition matchesAll ::
  "(string \<Rightarrow> string) \<Rightarrow> string \<Rightarrow> string \<Rightarrow> string \<Rightarrow> SupplyItem \<Rightarrow> exn + bool" where
  "matchesAll lc searchQuery expiredFilter typeFilter item =
     (case matchesText lc searchQuery item of
        Inl e \<Rightarrow> Inl e
      | Inr mt \<Rightarrow> Inr (mt \<and> matchesExpiry expiredFilter item \<and> matchesType typeFilter item))"

text \<open>
  \<open>Array.prototype.filter\<close> with a callback that may throw: the elements are visited in
  order and the first exception ends the call.
\<close>

fun filter_js :: "('a \<Rightarrow> exn + bool) \<Rightarrow> 'a list \<Rightarrow> exn + 'a list" where
  "filter_js p [] = Inr []"
| "filter_js p (x # xs) =
     (case p x of
        Inl e \<Rightarrow> Inl e
      | Inr b \<Rightarrow>
          (case filter_js p xs of
             Inl e \<Rightarrow> Inl e
           | Inr ys \<Rightarrow> Inr (if b then x # ys else ys)))"

definition filterItems ::
  "(string \<Rightarrow> string) \<Rightarrow> SupplyItem list \<Rightarrow> string \<Rightarrow> string \<Rightarrow> string \<Rightarrow> exn + SupplyItem list" where
  "filterItems lc items searchQuery expiredFilter typeFilter =
     filter_js (matchesAll lc searchQuery expiredFilter typeFilter) items"

text \<open>
  The filter as the specification words it, for comparison with \<open>filterItems\<close>. A
  query is whitespace-only when it is a run of white-space characters, nothing else (the
  empty query is one). Otherwise it has to occur, both sides lower-cased, as a contiguous
  block in the name or in the category. The expiry filter is \<open>all\<close> or agrees with the
  stored flag; the category filter is \<open>all\<close> or equals the category.
\<close>

definition whitespace_only :: "string \<Rightarrow> bool" where
  "whitespace_only q = (\<exists>ws. set ws \<subseteq> set js_whitespace \<and> q = concat ws)"

definition spec_text_match :: "(string \<Rightarrow> string) \<Rightarrow> string \<Rightarrow> SupplyItem \<Rightarrow> bool" where
  "spec_text_match lc q item =
     (whitespace_only q \<or>
      (case name item of None \<Rightarrow> False | Some n \<Rightarrow> sublist (lc q) (lc n)) \<or>
      sublist (lc q) (lc (typeOfSupply item)))"

definition spec_expiry_match :: "string \<Rightarrow> SupplyItem \<Rightarrow> bool" where
  "spec_expiry_match e item =
     (e = ''all'' \<or> (e = ''expired'' \<and> isExpired item) \<or>
      (e = ''not-expired'' \<and> \<not> isExpired item))"

definition spec_category_match :: "string \<Rightarrow> SupplyItem \<Rightarrow> bool" where
  "spec_category_match t item = (t = ''all'' \<or> typeOfSupply item = t)"

definition spec_filter ::
  "(string \<Rightarrow> string) \<Rightarrow> SupplyItem list \<Rightarrow> string \<Rightarrow> string \<Rightarrow> string \<Rightarrow> SupplyItem list" where
  "spec_filter lc items q e t =
     filter (\<lambda>item. spec_text_match lc q item \<and> spec_expiry_match e item \<and>
                    spec_category_match t item) items"

text \<open>An item with every field at its default, for building concrete inputs.\<close>

definition blank_item :: "string \<Rightarrow> SupplyItem" where
  "blank_item i = \<lparr>
     item_id = i, name = Some [], description = [], lotNumber = [], expiresOn = [],
     quantity = 0, imageUrl = ''/logo.png'', isExpired = False, typeOfSupply = [],
     palletLocation = [], company = [], cardboardBoxesPerPallet = 0,
     unitBoxesPerCardboard = 0, unitsPerBox = 0, weightPerCardboardBox = 0,
     dimensionsCardboardBox = [], costPerUnitBox = 0, costPerCardboardBox = 0,
     relevantLink = [], otherNotes = [] \<rparr>"

section \<open>Role gate\<close>

text \<open>\<open>xs.includes(x)\<close> on an array.\<close>

primrec array_includes :: "'a list \<Rightarrow> 'a \<Rightarrow> bool" where
  "array_includes [] x = False"
| "array_includes (y # ys) x = (y = x \<or> array_includes ys x)"

text \<open>
  \<^verbatim>\<open>const canManage = userRoles.includes("admin") || userRoles.includes("volunteer");
  const isAdmin = userRoles.includes("admin");\<close>
\<close>

definition canManage :: "string list \<Rightarrow> bool" where
  "canManage userRoles =
     (array_includes userRoles ''admin'' \<or> array_includes userRoles ''volunteer'')"

definition isAdmin :: "string list \<Rightarrow> bool" where
  "isAdmin userRoles = array_includes userRoles ''admin''"

section \<open>Component state and the remote collaborators\<close>

text \<open>
  The page's state is passed explicitly. Two logs are added to what the component holds:
  the notices shown to the user (\<open>toast.error\<close>, \<open>toast.success\<close>) and the remote calls
  issued, in order. \<open>console.error\<close> output, the search inputs and the detail view
  (\<open>selectedItem\<close>, \<open>isItemModalOpen\<close>) are not modelled.
\<close>

record upload_file =
  file_name :: string
  file_type :: string
  file_size :: nat

datatype toast = ToastError string | ToastSuccess string

datatype call =
    StorageUpload string upload_file  \<comment> \<open>\<open>storage.from(bucket).upload(filePath, file, ...)\<close>\<close>
  | DbSelectAll  \<comment> \<open>\<open>from('medical_supplies').select("*")\<close>\<close>
  | DbInsert dbdata  \<comment> \<open>\<open>from('medical_supplies').insert([createData]).select()\<close>\<close>
  | DbUpdate string dbdata  \<comment> \<open>\<open>from('medical_supplies').update(databaseData).eq('id', id).select()\<close>\<close>
  | DbUpdateImage string string  \<comment> \<open>\<open>from('medical_supplies').update({image_url}).eq('id', id)\<close>\<close>

text \<open>
  An awaited remote call either rejects (the \<open>await\<close> throws) or resolves to
  \<open>{data, error}\<close>; \<open>data\<close> may be null and \<open>error\<close> is null on success.
\<close>

datatype 'a response = Rejected | Resolved "'a list option" "string option"

text \<open>
  What the outside world answers during one run of a handler: one answer per call site,
  the public URL the object store resolves for a path, the clock reading \<open>Date.now()\<close>
  and the random suffix \<open>Math.random().toString(36).substring(7)\<close>, both as text.
\<close>

record env =
  storageUpload :: "unit response"
  getPublicUrl :: "string \<Rightarrow> string"
  dbSelect :: "row response"
  dbUpdate :: "row response"
  dbInsert :: "row response"
  dbUpdateImage :: "row response"
  now :: string
  random :: string

record state =
  userRoles :: "string list"
  items :: "SupplyItem list"
  loading :: bool
  isEditModalOpen :: bool
  isNewItemModalOpen :: bool
  editingItem :: "SupplyItem option"
  formData :: draft
  imageFile :: "upload_file option"
  imagePreview :: "string option"
  uploadingImage :: bool
  toasts :: "toast list"
  calls :: "call list"

definition toast_error :: "string \<Rightarrow> state \<Rightarrow> state" where
  "toast_error msg s = s\<lparr>toasts := toasts s @ [ToastError msg]\<rparr>"

definition toast_success :: "string \<Rightarrow> state \<Rightarrow> state" where
  "toast_success msg s = s\<lparr>toasts := toasts s @ [ToastSuccess msg]\<rparr>"

definition issue :: "call \<Rightarrow> state \<Rightarrow> state" where
  "issue c s = s\<lparr>calls := calls s @ [c]\<rparr>"

text \<open>\<open>{}\<close> as a draft: \<open>setFormData({})\<close>.\<close>

definition emptyDraft :: draft where
  "emptyDraft = \<lparr>
     fd_id = None, fd_name = None, fd_description = None, fd_lotNumber = None,
     fd_expiresOn = None, fd_quantity = None, fd_imageUrl = None, fd_isExpired = None,
     fd_typeOfSupply = None, fd_palletLocation = None, fd_company = None,
     fd_cardboardBoxesPerPallet = None, fd_unitBoxesPerCardboard = None,
     fd_unitsPerBox = None, fd_weightPerCardboardBox = None,
     fd_dimensionsCardboardBox = None, fd_costPerUnitBox = None,
     fd_costPerCardboardBox = None, fd_relevantLink = None, fd_otherNotes = None \<rparr>"

section \<open>Loading the collection\<close>

text \<open>
  \<open>fetchItems\<close> in two halves: what runs before the \<open>await\<close> (the busy flag is raised and
  the query is sent) and what runs when the answer is there. A caller that does not await
  \<open>fetchItems()\<close> sees only the first half.
\<close>

definition fetchItems_start :: "state \<Rightarrow> state" where
  "fetchItems_start s = issue DbSelectAll (s\<lparr>loading := True\<rparr>)"

definition fetchItems_finish :: "env \<Rightarrow> state \<Rightarrow> state" where
  "fetchItems_finish env s =
     (case dbSelect env of
        Rejected \<Rightarrow> (toast_error ''Failed to load medical supplies'' s)\<lparr>loading := False\<rparr>
      | Resolved data (Some msg) \<Rightarrow>
          (toast_error (''Failed to load medical supplies: '' @ msg) s)\<lparr>loading := False\<rparr>
      | Resolved data None \<Rightarrow>
          (case data of
             None \<Rightarrow> s\<lparr>items := [], loading := False\<rparr>
           | Some [] \<Rightarrow> s\<lparr>items := [], loading := False\<rparr>
           | Some rows \<Rightarrow> s\<lparr>items := map toViewModel rows, loading := False\<rparr>))"

definition fetchItems :: "env \<Rightarrow> state \<Rightarrow> state" where
  "fetchItems env s = fetchItems_finish env (fetchItems_start s)"

section \<open>Image upload\<close>

text \<open>
  \<^verbatim>\<open>const fileExt = file.name.split('.').pop();
  const fileName = itemId ? `${itemId}-${Date.now()}.${fileExt}`
                          : `temp-${Date.now()}-${Math.random()...}.${fileExt}`;
  const filePath = `medical-supplies/${fileName}`;\<close>
  The whole body sits in \<open>try/catch/finally\<close>: a rejected or failed upload gives \<open>null\<close>
  and a notice, never an exception, and the busy flag is lowered in every case.
\<close>

definition uploadPath :: "env \<Rightarrow> upload_file \<Rightarrow> string option \<Rightarrow> string" where
  "uploadPath env f itemId =
     (let fileExt = last (split_js CHR ''.'' (file_name f));
          fileName =
            (case itemId of
               None \<Rightarrow> ''temp-'' @ now env @ ''-'' @ random env @ ''.'' @ fileExt
             | Some i \<Rightarrow>
                 if i = [] then ''temp-'' @ now env @ ''-'' @ random env @ ''.'' @ fileExt
                 else i @ ''-'' @ now env @ ''.'' @ fileExt)
      in ''medical-supplies/'' @ fileName)"

definition uploadImageToStorage :: "env \<Rightarrow> upload_file \<Rightarrow> string option \<Rightarrow> state \<Rightarrow> string option \<times> state" where
  "uploadImageToStorage env f itemId s =
     (let filePath = uploadPath env f itemId;
          s1 = issue (StorageUpload filePath f) (s\<lparr>uploadingImage := True\<rparr>)
      in case storageUpload env of
           Rejected \<Rightarrow> (None, (toast_error ''Failed to upload image'' s1)\<lparr>uploadingImage := False\<rparr>)
         | Resolved data (Some uploadError) \<Rightarrow>
             (None, (toast_error ''Failed to upload image'' s1)\<lparr>uploadingImage := False\<rparr>)
         | Resolved data None \<Rightarrow>
             (Some (getPublicUrl env filePath), s1\<lparr>uploadingImage := False\<rparr>))"

section \<open>Form state controller: submit\<close>

text \<open>The guard at the head of \<open>handleSaveItem\<close>:
  \<^verbatim>\<open>!formData.name || !formData.quantity || !formData.typeOfSupply || !formData.expiresOn\<close>\<close>

definition missingRequired :: "draft \<Rightarrow> bool" where
  "missingRequired fd =
     (\<not> truthy_str (fd_name fd) \<or> \<not> truthy_num (fd_quantity fd) \<or>
      \<not> truthy_str (fd_typeOfSupply fd) \<or> \<not> truthy_str (fd_expiresOn fd))"

text \<open>The object literal \<open>databaseData\<close>, for the image reference decided before it.\<close>

definition databaseData :: "draft \<Rightarrow> string \<Rightarrow> dbdata" where
  "databaseData fd imgUrl = \<lparr>
     row_name = fd_name fd,
     row_description = Some (or_str (fd_description fd) []),
     lot_number = Some (or_str (fd_lotNumber fd) []),
     expires_on = fd_expiresOn fd,
     row_quantity = Some (or_num (fd_quantity fd) 0),
     image_url = Some imgUrl,
     is_expired = Some (or_bool (fd_isExpired fd) False),
     type_of_supply = fd_typeOfSupply fd,
     pallet_location = Some (or_str (fd_palletLocation fd) []),
     row_company = Some (or_str (fd_company fd) []),
     cardboard_boxes_per_pallet = Some (or_num (fd_cardboardBoxesPerPallet fd) 0),
     unit_boxes_per_cardboard = Some (or_num (fd_unitBoxesPerCardboard fd) 0),
     units_per_box = Some (or_num (fd_unitsPerBox fd) 0),
     weight_per_cardboard_box = Some (or_num (fd_weightPerCardboardBox fd) 0),
     dimensions_cardboard_box = Some (or_str (fd_dimensionsCardboardBox fd) []),
     cost_per_unit_box = Some (or_num (fd_costPerUnitBox fd) 0),
     cost_per_cardboard_box = Some (or_num (fd_costPerCardboardBox fd) 0),
     relevant_link = Some (or_str (fd_relevantLink fd) []),
     other_notes = Some (or_str (fd_otherNotes fd) []) \<rparr>"

text \<open>
  The item built from a row the store returned to \<open>handleSaveItem\<close> (\<open>updatedRow\<close>,
  \<open>newRow\<close>). Unlike \<open>fetchItems\<close>, these two literals default the expiration date to
  \<open>""\<close>; the image reference is \<open>updatedRow.image_url || "/logo.png"\<close> in one and
  \<open>finalImageUrl\<close> in the other, so it is an argument.
\<close>

definition itemOfSavedRow :: "row \<Rightarrow> string \<Rightarrow> SupplyItem" where
  "itemOfSavedRow r img = \<lparr>
     item_id = row_id r,
     name = row_name r,
     description = or_str (row_description r) [],
     lotNumber = or_str (lot_number r) [],
     expiresOn = or_str (expires_on r) [],
     quantity = or_num (row_quantity r) 0,
     imageUrl = img,
     isExpired = or_bool (is_expired r) False,
     typeOfSupply = or_str (type_of_supply r) [],
     palletLocation = or_str (pallet_location r) [],
     company = or_str (row_company r) [],
     cardboardBoxesPerPallet = or_num (cardboard_boxes_per_pallet r) 0,
     unitBoxesPerCardboard = or_num (unit_boxes_per_cardboard r) 0,
     unitsPerBox = or_num (units_per_box r) 0,
     weightPerCardboardBox = or_num (weight_per_cardboard_box r) 0,
     dimensionsCardboardBox = or_str (dimensions_cardboard_box r) [],
     costPerUnitBox = or_num (cost_per_unit_box r) 0,
     costPerCardboardBox = or_num (cost_per_cardboard_box r) 0,
     relevantLink = or_str (relevant_link r) [],
     otherNotes = or_str (other_notes r) [] \<rparr>"

text \<open>
  The fallback literal of the edit branch, used when the update returned no row:
  \<^verbatim>\<open>{ id: editingItem.id, name: formData.name || editingItem.name,
    description: formData.description ?? editingItem.description, ... }\<close>
\<close>

definition mergedItem :: "draft \<Rightarrow> SupplyItem \<Rightarrow> SupplyItem" where
  "mergedItem fd e = \<lparr>
     item_id = item_id e,
     name = or_str_opt (fd_name fd) (name e),
     description = nullish (fd_description fd) (description e),
     lotNumber = nullish (fd_lotNumber fd) (lotNumber e),
     expiresOn = nullish (fd_expiresOn fd) (expiresOn e),
     quantity = nullish (fd_quantity fd) (quantity e),
     imageUrl = nullish (fd_imageUrl fd) (imageUrl e),
     isExpired = nullish (fd_isExpired fd) (isExpired e),
     typeOfSupply = nullish (fd_typeOfSupply fd) (typeOfSupply e),
     palletLocation = nullish (fd_palletLocation fd) (palletLocation e),
     company = nullish (fd_company fd) (company e),
     cardboardBoxesPerPallet = nullish (fd_cardboardBoxesPerPallet fd) (cardboardBoxesPerPallet e),
     unitBoxesPerCardboard = nullish (fd_unitBoxesPerCardboard fd) (unitBoxesPerCardboard e),
     unitsPerBox = nullish (fd_unitsPerBox fd) (unitsPerBox e),
     weightPerCardboardBox = nullish (fd_weightPerCardboardBox fd) (weightPerCardboardBox e),
     dimensionsCardboardBox = nullish (fd_dimensionsCardboardBox fd) (dimensionsCardboardBox e),
     costPerUnitBox = nullish (fd_costPerUnitBox fd) (costPerUnitBox e),
     costPerCardboardBox = nullish (fd_costPerCardboardBox fd) (costPerCardboardBox e),
     relevantLink = nullish (fd_relevantLink fd) (relevantLink e),
     otherNotes = nullish (fd_otherNotes fd) (otherNotes e) \<rparr>"

text \<open>\<open>prev.map(i => i.id === updatedItem.id ? updatedItem : i)\<close>\<close>

definition replaceById :: "SupplyItem \<Rightarrow> SupplyItem list \<Rightarrow> SupplyItem list" where
  "replaceById updatedItem prev =
     map (\<lambda>i. if item_id i = item_id updatedItem then updatedItem else i) prev"

text \<open>\<open>data && data[0]\<close>, and the test \<open>!data || data.length === 0\<close>.\<close>

definition firstRow :: "row list option \<Rightarrow> row option" where
  "firstRow data = (case data of None \<Rightarrow> None | Some [] \<Rightarrow> None | Some (r # rs) \<Rightarrow> Some r)"

text \<open>
  How the body of the \<open>try\<close> block ends: by an exception (a rejected \<open>await\<close>), by an
  early \<open>return\<close>, or by running to the statements that close the modal.
\<close>

datatype flow = Thrown | Returned | Completed

text \<open>
  \<open>const updatedItem = updatedRow ? {...from the returned row...} : {...fallback...}\<close> with
  \<open>updatedRow = data && data[0]\<close>.
\<close>

definition updatedItemOf :: "row list option \<Rightarrow> draft \<Rightarrow> SupplyItem \<Rightarrow> SupplyItem" where
  "updatedItemOf data fd e =
     (case firstRow data of
        Some updatedRow \<Rightarrow>
          itemOfSavedRow updatedRow (or_str (image_url updatedRow) ''/logo.png'')
      | None \<Rightarrow> mergedItem fd e)"

text \<open>The edit branch, from \<open>supabase.from(...).update(databaseData)\<close> on.\<close>

definition saveEdit :: "env \<Rightarrow> SupplyItem \<Rightarrow> dbdata \<Rightarrow> state \<Rightarrow> flow \<times> state" where
  "saveEdit env e dd s =
     (let s1 = issue (DbUpdate (item_id e) dd) s
      in case dbUpdate env of
           Rejected \<Rightarrow> (Thrown, s1)
         | Resolved data (Some err) \<Rightarrow> (Returned, toast_error ''Failed to update item'' s1)
         | Resolved data None \<Rightarrow>
             (let updatedItem = updatedItemOf data (formData s) e
              in (Completed,
                  toast_success ''Item updated successfully!''
                    (s1\<lparr>items := replaceById updatedItem (items s1)\<rparr>))))"

text \<open>
  The create branch after a successful insert that returned \<open>newRow\<close>: the optional
  upload keyed by the new id, the patch of the image reference (its result is not looked
  at), and the prepend. The statement after the \<open>if/else\<close> on the returned data, the
  success notice, runs when neither arm threw (\<open>whenCompleted\<close>).
\<close>

definition prependNew :: "row \<Rightarrow> string \<Rightarrow> state \<Rightarrow> state" where
  "prependNew newRow finalImageUrl s = s\<lparr>items := itemOfSavedRow newRow finalImageUrl # items s\<rparr>"

definition afterInsert :: "env \<Rightarrow> row \<Rightarrow> state \<Rightarrow> flow \<times> state" where
  "afterInsert env newRow s =
     (let finalImageUrl = or_str (image_url newRow) ''/logo.png''
      in case imageFile s of
           None \<Rightarrow> (Completed, prependNew newRow finalImageUrl s)
         | Some f \<Rightarrow>
             (case uploadImageToStorage env f (Some (row_id newRow)) s of
                (uploadedUrl, s1) \<Rightarrow>
                  if truthy_str uploadedUrl then
                    (let s2 = issue (DbUpdateImage (row_id newRow) (or_str uploadedUrl [])) s1
                     in case dbUpdateImage env of
                          Rejected \<Rightarrow> (Thrown, s2)
                        | Resolved data err \<Rightarrow>
                            (Completed, prependNew newRow (or_str uploadedUrl []) s2))
                  else (Completed, prependNew newRow finalImageUrl s1)))"

text \<open>
  \<^verbatim>\<open>let tempImageUrl = imageUrl;
  if (imageFile) { tempImageUrl = "/logo.png"; }
  const createData = { ...databaseData, image_url: tempImageUrl };\<close>
\<close>

definition createData :: "dbdata \<Rightarrow> upload_file option \<Rightarrow> dbdata" where
  "createData dd imgFile =
     dd\<lparr>image_url := (if imgFile \<noteq> None then Some ''/logo.png'' else image_url dd)\<rparr>"

definition whenCompleted :: "(state \<Rightarrow> state) \<Rightarrow> flow \<times> state \<Rightarrow> flow \<times> state" where
  "whenCompleted k r = (case r of (fl, s) \<Rightarrow> (fl, if fl = Completed then k s else s))"

definition saveCreate :: "env \<Rightarrow> dbdata \<Rightarrow> state \<Rightarrow> flow \<times> state" where
  "saveCreate env dd s =
     (let s1 = issue (DbInsert (createData dd (imageFile s))) s
      in case dbInsert env of
           Rejected \<Rightarrow> (Thrown, s1)
         | Resolved data (Some err) \<Rightarrow> (Returned, toast_error ''Failed to create item'' s1)
         | Resolved data None \<Rightarrow>
             whenCompleted (toast_success ''Item created successfully!'')
               (case firstRow data of
                  None \<Rightarrow> (Completed, fetchItems_start s1)
                | Some newRow \<Rightarrow> afterInsert env newRow s1))"

text \<open>The statements after the two branches: close the modals and reset the form.\<close>

definition closeAndReset :: "state \<Rightarrow> state" where
  "closeAndReset s = s\<lparr>isEditModalOpen := False, isNewItemModalOpen := False,
     formData := emptyDraft, editingItem := None, imageFile := None, imagePreview := None\<rparr>"

text \<open>
  The image reference decided at the head of the \<open>try\<close> block:
  \<^verbatim>\<open>let imageUrl = formData.imageUrl || "/logo.png";
  if (imageFile && editingItem) {
    const uploadedUrl = await uploadImageToStorage(imageFile, editingItem.id);
    if (uploadedUrl) { imageUrl = uploadedUrl; } else { imageUrl = editingItem.imageUrl; }
  }\<close>
\<close>

definition decideImageUrl :: "env \<Rightarrow> state \<Rightarrow> string \<times> state" where
  "decideImageUrl env s =
     (case (imageFile s, editingItem s) of
        (Some f, Some e) \<Rightarrow>
          (case uploadImageToStorage env f (Some (item_id e)) s of
             (uploadedUrl, s1) \<Rightarrow>
               (if truthy_str uploadedUrl then or_str uploadedUrl [] else imageUrl e, s1))
      | _ \<Rightarrow> (or_str (fd_imageUrl (formData s)) ''/logo.png'', s))"

text \<open>
  \<open>handleSaveItem\<close>: the guard, the image reference, the payload, the branch on
  \<open>editingItem\<close>, and the \<open>catch\<close> around all of it.
\<close>

definition saveBody :: "env \<Rightarrow> state \<Rightarrow> flow \<times> state" where
  "saveBody env s =
     (case decideImageUrl env s of
        (imgUrl, s1) \<Rightarrow>
          (let dd = databaseData (formData s) imgUrl
           in case editingItem s of
                Some e \<Rightarrow> saveEdit env e dd s1
              | None \<Rightarrow> saveCreate env dd s1))"

definition handleSaveItem :: "env \<Rightarrow> state \<Rightarrow> state" where
  "handleSaveItem env s =
     (if missingRequired (formData s) then toast_error ''Please fill in all required fields'' s
      else (case saveBody env s of
              (Thrown, s1) \<Rightarrow> toast_error ''Failed to save item'' s1
            | (Returned, s1) \<Rightarrow> s1
            | (Completed, s1) \<Rightarrow> closeAndReset s1))"

section \<open>Opening the form\<close>

text \<open>
  \<open>setFormData(item)\<close>: an item used as a draft has every field set.
\<close>

definition draftOf :: "SupplyItem \<Rightarrow> draft" where
  "draftOf i = \<lparr>
     fd_id = Some (item_id i), fd_name = name i, fd_description = Some (description i),
     fd_lotNumber = Some (lotNumber i), fd_expiresOn = Some (expiresOn i),
     fd_quantity = Some (quantity i), fd_imageUrl = Some (imageUrl i),
     fd_isExpired = Some (isExpired i), fd_typeOfSupply = Some (typeOfSupply i),
     fd_palletLocation = Some (palletLocation i), fd_company = Some (company i),
     fd_cardboardBoxesPerPallet = Some (cardboardBoxesPerPallet i),
     fd_unitBoxesPerCardboard = Some (unitBoxesPerCardboard i),
     fd_unitsPerBox = Some (unitsPerBox i),
     fd_weightPerCardboardBox = Some (weightPerCardboardBox i),
     fd_dimensionsCardboardBox = Some (dimensionsCardboardBox i),
     fd_costPerUnitBox = Some (costPerUnitBox i),
     fd_costPerCardboardBox = Some (costPerCardboardBox i),
     fd_relevantLink = Some (relevantLink i), fd_otherNotes = Some (otherNotes i) \<rparr>"

text \<open>The draft \<open>openNewItemModal\<close> starts from.\<close>

definition newItemDraft :: draft where
  "newItemDraft = \<lparr>
     fd_id = None, fd_name = Some [], fd_description = Some [], fd_lotNumber = Some [],
     fd_expiresOn = Some [], fd_quantity = Some 0, fd_imageUrl = Some ''/logo.png'',
     fd_isExpired = Some False, fd_typeOfSupply = Some [], fd_palletLocation = Some [],
     fd_company = Some [], fd_cardboardBoxesPerPallet = Some 0,
     fd_unitBoxesPerCardboard = Some 0, fd_unitsPerBox = Some 0,
     fd_weightPerCardboardBox = Some 0, fd_dimensionsCardboardBox = Some [],
     fd_costPerUnitBox = Some 0, fd_costPerCardboardBox = Some 0,
     fd_relevantLink = Some [], fd_otherNotes = Some [] \<rparr>"

text \<open>
  \<open>openEditModal\<close> and \<open>openNewItemModal\<close>, both behind \<open>if (!canManage) return;\<close>.
\<close>

definition openEditModal :: "SupplyItem \<Rightarrow> state \<Rightarrow> state" where
  "openEditModal item s =
     (if \<not> canManage (userRoles s) then s
      else s\<lparr>editingItem := Some item, formData := draftOf item, imageFile := None,
             imagePreview := None, isEditModalOpen := True\<rparr>)"

definition openNewItemModal :: "state \<Rightarrow> state" where
  "openNewItemModal s =
     (if \<not> canManage (userRoles s) then s
      else s\<lparr>editingItem := None, formData := newItemDraft, imageFile := None,
             imagePreview := None, isNewItemModalOpen := True\<rparr>)"

text \<open>
  \<open>handleInputChange(field, value)\<close> merges one field into the draft; the form calls it
  for every field except the id and the image reference, so those two keep the value the
  modal was opened with.
\<close>

section \<open>Concrete inputs\<close>

text \<open>
  A valid draft as the new-item form produces it, an attached image, the state of the page
  with the new-item modal open on that draft, and the row a store returns when it stores a
  payload under a fresh id.
\<close>

definition sample_draft :: draft where
  "sample_draft = emptyDraft\<lparr>fd_name := Some ''Gauze'', fd_quantity := Some 4,
     fd_typeOfSupply := Some ''Wound Care'', fd_expiresOn := Some ''2026-01-31'',
     fd_imageUrl := Some ''/logo.png''\<rparr>"

definition sample_file :: upload_file where
  "sample_file = \<lparr>file_name = ''photo.png'', file_type = ''image/png'', file_size = 2048\<rparr>"

definition storedRow :: "string \<Rightarrow> dbdata \<Rightarrow> row" where
  "storedRow i dd = dbdata.extend dd (row.fields i)"

definition create_state :: state where
  "create_state = \<lparr>userRoles = [''volunteer''], items = [blank_item ''i1''],
     loading = False, isEditModalOpen = False, isNewItemModalOpen = True, editingItem = None, formData = sample_draft,
     imageFile = None, imagePreview = None, uploadingImage = False, toasts = [],
     calls = []\<rparr>"

text \<open>The page with the edit modal open on the item \<open>i1\<close>, one field changed.\<close>

definition edited_item :: SupplyItem where
  "edited_item = (blank_item ''i1'')\<lparr>name := Some ''Gauze'', quantity := 4,
     typeOfSupply := ''Wound Care'', expiresOn := ''2026-01-31'',
     imageUrl := ''https://cdn/old.png''\<rparr>"

definition edit_state :: state where
  "edit_state = \<lparr>userRoles = [''volunteer''], items = [blank_item ''i0'', edited_item],
     loading = False, isEditModalOpen = True, isNewItemModalOpen = False, editingItem = Some edited_item,
     formData = (draftOf edited_item)\<lparr>fd_quantity := Some 9\<rparr>,
     imageFile = None, imagePreview = None, uploadingImage = False, toasts = [],
     calls = []\<rparr>"

text \<open>A world in which every call succeeds and the store returns what it was given.\<close>

definition good_env :: env where
  "good_env = \<lparr>
     storageUpload = Resolved None None,
     getPublicUrl = (\<lambda>p. ''https://cdn/'' @ p),
     dbSelect = Resolved (Some []) None,
     dbUpdate = Resolved (Some [storedRow ''i1''
       (databaseData ((draftOf edited_item)\<lparr>fd_quantity := Some 9\<rparr>) ''https://cdn/old.png'')]) None,
     dbInsert = Resolved (Some [storedRow ''n7'' (databaseData sample_draft ''/logo.png'')]) None,
     dbUpdateImage = Resolved None None,
     now = ''1700000000000'',
     random = ''k3x9q'' \<rparr>"

section \<open>Fetching the roles of the signed-in user\<close>

text \<open>
  The two queries of \<open>fetchUserRoles\<close>: the \<open>user_roles\<close> rows of a user (column
  \<open>role_id\<close>) and the \<open>roles\<close> rows whose id is in a list (columns \<open>id\<close>, \<open>role_name\<close>).
\<close>

record user_role_row =
  role_id :: "string option"

record role_row =
  role_row_id :: string
  role_name :: string

record roles_env =
  userRolesQuery :: "string \<Rightarrow> user_role_row response"
  rolesQuery :: "string list \<Rightarrow> role_row response"

text \<open>\<open>data || []\<close>\<close>

definition rows_or_empty :: "'a list option \<Rightarrow> 'a list" where
  "rows_or_empty data = (case data of None \<Rightarrow> [] | Some rows \<Rightarrow> rows)"

text \<open>
  \<open>const roleIds = (userRolesRows || []).map((r: any) => r.role_id).filter(Boolean)\<close>
\<close>

definition roleIdsOf :: "user_role_row list option \<Rightarrow> string list" where
  "roleIdsOf userRolesRows =
     map (\<lambda>i. or_str i []) (filter truthy_str (map role_id (rows_or_empty userRolesRows)))"

text \<open>
  \<open>fetchUserRoles\<close> for the session's user id (\<open>session?.user?.id\<close>, absent when there
  is no session). Every path through it ends in one \<open>setUserRoles(...)\<close>; the function
  gives the list that is set.
\<close>

definition fetchUserRoles :: "roles_env \<Rightarrow> string option \<Rightarrow> string list" where
  "fetchUserRoles env sessionUserId =
     (case sessionUserId of
        None \<Rightarrow> []
      | Some uid \<Rightarrow>
          if uid = [] then []
          else (case userRolesQuery env uid of
                  Rejected \<Rightarrow> []
                | Resolved userRolesRows (Some userRolesError) \<Rightarrow> []
                | Resolved userRolesRows None \<Rightarrow>
                    (let roleIds = roleIdsOf userRolesRows
                     in if roleIds = [] then []
                        else (case rolesQuery env roleIds of
                                Rejected \<Rightarrow> []
                              | Resolved rolesRows (Some rolesError) \<Rightarrow> []
                              | Resolved rolesRows None \<Rightarrow>
                                  map role_name (rows_or_empty rolesRows)))))"

section \<open>Admin role assignment\<close>

record AdminUserRow =
  user_id :: string
  email :: string
  roles :: "string list"

text \<open>
  \<^verbatim>\<open>if (row.roles.includes("admin")) return "admin";
  if (row.roles.includes("volunteer")) return "volunteer";
  if (row.roles.includes("visitor")) return "visitor";
  return "";\<close>
\<close>

definition currentRoleOf :: "AdminUserRow \<Rightarrow> string" where
  "currentRoleOf u =
     (if array_includes (roles u) ''admin'' then ''admin''
      else if array_includes (roles u) ''volunteer'' then ''volunteer''
      else if array_includes (roles u) ''visitor'' then ''visitor''
      else [])"

text \<open>
  The precedence of the specification, for comparison with \<open>currentRoleOf\<close>:
  admin above volunteer above visitor, any other name below all three.
\<close>

definition role_rank :: "string \<Rightarrow> nat" where
  "role_rank r =
     (if r = ''admin'' then 3 else if r = ''volunteer'' then 2
      else if r = ''visitor'' then 1 else 0)"

text \<open>
  The state of the admin page that \<open>handleSaveRole\<close> touches, with the notices and the
  \<open>admin_set_single_role\<close> calls (target user, target role name) logged.
\<close>

record admin_state =
  users :: "AdminUserRow list"
  pendingRole :: "string \<rightharpoonup> string"
  saving :: "string \<rightharpoonup> bool"
  admin_toasts :: "toast list"
  rpc_calls :: "(string \<times> string) list"

text \<open>
  \<open>handleSaveRole\<close>. The remote procedure either rejects or resolves to \<open>{error}\<close>; an
  error is thrown into the same \<open>catch\<close> as a rejection, and \<open>finally\<close> lowers the
  saving flag in both cases.
\<close>

definition handleSaveRole :: "unit response \<Rightarrow> string \<Rightarrow> admin_state \<Rightarrow> admin_state" where
  "handleSaveRole rpc userId s =
     (if \<not> truthy_str (pendingRole s userId) then
        s\<lparr>admin_toasts := admin_toasts s @ [ToastError ''Please select a role first'']\<rparr>
      else
        (let roleName = or_str (pendingRole s userId) [];
             s1 = s\<lparr>saving := (saving s)(userId \<mapsto> True),
                    rpc_calls := rpc_calls s @ [(userId, roleName)]\<rparr>;
             failed = s1\<lparr>admin_toasts := admin_toasts s1 @ [ToastError ''Failed to update role''],
                         saving := (saving s1)(userId \<mapsto> False)\<rparr>
         in case rpc of
              Rejected \<Rightarrow> failed
            | Resolved data (Some err) \<Rightarrow> failed
            | Resolved data None \<Rightarrow>
                s1\<lparr>admin_toasts := admin_toasts s1 @ [ToastSuccess ''Role updated''],
                   users := map (\<lambda>u. if user_id u = userId then u\<lparr>roles := [roleName]\<rparr> else u)
                              (users s1),
                   saving := (saving s1)(userId \<mapsto> False)\<rparr>))"

text \<open>Concrete inputs for the admin page and the role gate.\<close>

definition sample_users :: "AdminUserRow list" where
  "sample_users =
     [\<lparr>user_id = ''u1'', email = ''ann@example.org'', roles = [''volunteer'', ''admin'']\<rparr>,
      \<lparr>user_id = ''u2'', email = ''bob@example.org'', roles = [''visitor'']\<rparr>]"

definition sample_admin_state :: admin_state where
  "sample_admin_state = \<lparr>users = sample_users, pendingRole = [''u1'' \<mapsto> ''visitor''],
     saving = Map.empty, admin_toasts = [], rpc_calls = []\<rparr>"

definition sample_roles_env :: roles_env where
  "sample_roles_env = \<lparr>
     userRolesQuery = (\<lambda>uid. Resolved (Some [\<lparr>role_id = Some ''r1''\<rparr>]) None),
     rolesQuery = (\<lambda>ids. Resolved (Some [\<lparr>role_row_id = ''r1'', role_name = ''volunteer''\<rparr>]) None) \<rparr>"

section \<open>Properties of the view-model transform\<close>

text \<open>The items the page holds after a load are the fetched rows under \<open>toViewModel\<close>.\<close>

lemma fetchItems_items:
  assumes "dbSelect env = Resolved (Some (r # rs)) None"
  shows "items (fetchItems env s) = map toViewModel (r # rs)"
    and "\<not> loading (fetchItems env s)"
  using assms by (simp_all add: fetchItems_def fetchItems_finish_def)

text \<open>
  C6 (as stated) asks that an absent name becomes the empty string. \<open>toViewModel\<close> has no
  default for the name: on a row that holds only its id the item's name is absent, not
  \<open>""\<close>.
\<close>

theorem toViewModel_name_not_defaulted:
  "name (toViewModel (bare_row ''r1'')) \<noteq> Some []"
  by (simp add: toViewModel_def bare_row_def)

text \<open>
  C6 (amended): \<open>toViewModel\<close> is total, it passes the id and the name of the row through
  unchanged, and it gives every other absent column its default: strings become \<open>""\<close>,
  numbers \<open>0\<close>, the expiration date \<open>"2025-12-31"\<close>, the image reference the placeholder
  \<open>"/logo.png"\<close> and the expired flag \<open>false\<close>.
\<close>

theorem toViewModel_defaults:
  "item_id (toViewModel item) = row_id item \<and>
   name (toViewModel item) = row_name item \<and>
   (row_quantity item = None \<longrightarrow> quantity (toViewModel item) = 0) \<and>
   (expires_on item = None \<longrightarrow> expiresOn (toViewModel item) = ''2025-12-31'') \<and>
   (image_url item = None \<longrightarrow> imageUrl (toViewModel item) = ''/logo.png'') \<and>
   (is_expired item = None \<longrightarrow> isExpired (toViewModel item) = False) \<and>
   (row_description item = None \<longrightarrow> description (toViewModel item) = []) \<and>
   (lot_number item = None \<longrightarrow> lotNumber (toViewModel item) = []) \<and>
   (type_of_supply item = None \<longrightarrow> typeOfSupply (toViewModel item) = []) \<and>
   (pallet_location item = None \<longrightarrow> palletLocation (toViewModel item) = []) \<and>
   (row_company item = None \<longrightarrow> company (toViewModel item) = []) \<and>
   (cardboard_boxes_per_pallet item = None \<longrightarrow> cardboardBoxesPerPallet (toViewModel item) = 0) \<and>
   (unit_boxes_per_cardboard item = None \<longrightarrow> unitBoxesPerCardboard (toViewModel item) = 0) \<and>
   (units_per_box item = None \<longrightarrow> unitsPerBox (toViewModel item) = 0) \<and>
   (weight_per_cardboard_box item = None \<longrightarrow> weightPerCardboardBox (toViewModel item) = 0) \<and>
   (dimensions_cardboard_box item = None \<longrightarrow> dimensionsCardboardBox (toViewModel item) = []) \<and>
   (cost_per_unit_box item = None \<longrightarrow> costPerUnitBox (toViewModel item) = 0) \<and>
   (cost_per_cardboard_box item = None \<longrightarrow> costPerCardboardBox (toViewModel item) = 0) \<and>
   (relevant_link item = None \<longrightarrow> relevantLink (toViewModel item) = []) \<and>
   (other_notes item = None \<longrightarrow> otherNotes (toViewModel item) = [])"
  by (simp add: toViewModel_def or_str_def or_num_def or_bool_def)

theorem toViewModel_defaults_witness:
  "toViewModel (bare_row ''r1'') = \<lparr>
     item_id = ''r1'', name = None, description = [], lotNumber = [],
     expiresOn = ''2025-12-31'', quantity = 0, imageUrl = ''/logo.png'', isExpired = False,
     typeOfSupply = [], palletLocation = [], company = [], cardboardBoxesPerPallet = 0,
     unitBoxesPerCardboard = 0, unitsPerBox = 0, weightPerCardboardBox = 0,
     dimensionsCardboardBox = [], costPerUnitBox = 0, costPerCardboardBox = 0,
     relevantLink = [], otherNotes = [] \<rparr>"
  using toViewModel_defaults [of "bare_row ''r1''"]
  by (simp add: bare_row_def SupplyItem.equality)

section \<open>Properties of the list filter\<close>

lemma includes_sublist: "includes_js s sub \<longleftrightarrow> sublist sub s"
proof (induction s)
  case Nil
  show ?case by simp
next
  case (Cons c s)
  have "take (length sub) (c # s) = sub \<longleftrightarrow> prefix sub (c # s)"
    by (metis append_eq_conv_conj prefix_def)
  with Cons show ?case
    by (cases sub) (auto simp: sublist_Cons_right)
qed

text \<open>What \<open>strip_tokens\<close> removes is a run of tokens.\<close>

lemma strip_tokens_Nil: "strip_tokens toks [] = []"
proof -
  have "find (\<lambda>w. w \<noteq> [] \<and> prefix w []) toks = None"
    by (simp add: find_None_iff)
  then show ?thesis
    by (subst strip_tokens.simps) (simp only: option.case)
qed

lemma strip_tokens_decomp:
  "\<exists>ts. set ts \<subseteq> set toks \<and> s = concat ts @ strip_tokens toks s"
proof (induction toks s rule: strip_tokens.induct)
  case (1 toks s)
  show ?case
  proof (cases "find (\<lambda>w. w \<noteq> [] \<and> prefix w s) toks")
    case None
    then have "strip_tokens toks s = s"
      by (subst strip_tokens.simps) simp
    then have "set [] \<subseteq> set toks \<and> s = concat [] @ strip_tokens toks s"
      by simp
    then show ?thesis by blast
  next
    case (Some w)
    then have w: "w \<in> set toks" "prefix w s"
      by (auto simp: find_Some_iff)
    from Some have r: "strip_tokens toks s = strip_tokens toks (drop (length w) s)"
      by (subst strip_tokens.simps) simp
    from "1.IH" [OF Some] obtain ts where ts: "set ts \<subseteq> set toks"
      "drop (length w) s = concat ts @ strip_tokens toks (drop (length w) s)"
      by blast
    from w(2) have "s = w @ drop (length w) s"
      by (auto simp: prefix_def)
    with ts(2) r have "s = concat (w # ts) @ strip_tokens toks s"
      by simp
    moreover from w(1) ts(1) have "set (w # ts) \<subseteq> set toks"
      by simp
    ultimately show ?thesis by blast
  qed
qed

text \<open>A run of tokens is removed whole when no token is a prefix of another.\<close>

lemma strip_tokens_concat:
  assumes pf: "\<forall>a \<in> set toks. \<forall>b \<in> set toks. prefix a b \<longrightarrow> a = b"
    and ne: "[] \<notin> set toks"
    and ts: "set ts \<subseteq> set toks"
  shows "strip_tokens toks (concat ts) = []"
  using ts
proof (induction ts)
  case Nil
  show ?case by (simp add: strip_tokens_Nil)
next
  case (Cons t ts)
  then have t: "t \<in> set toks" "t \<noteq> []" and ih: "strip_tokens toks (concat ts) = []"
    using ne by auto
  let ?s = "concat (t # ts)"
  have pt: "prefix t ?s" by simp
  with t have "find (\<lambda>w. w \<noteq> [] \<and> prefix w ?s) toks \<noteq> None"
    by (auto simp: find_None_iff)
  then obtain w where f: "find (\<lambda>w. w \<noteq> [] \<and> prefix w ?s) toks = Some w"
    by auto
  then have w: "w \<in> set toks" "prefix w ?s"
    by (auto simp: find_Some_iff)
  from w(2) pt have "prefix w t \<or> prefix t w"
    by (rule prefix_same_cases)
  with pf w(1) t(1) have "w = t" by blast
  with f have "strip_tokens toks ?s = strip_tokens toks (drop (length t) ?s)"
    by (subst strip_tokens.simps) simp
  with ih show ?case by simp
qed

lemma js_whitespace_prefix_free:
  "\<forall>a \<in> set js_whitespace. \<forall>b \<in> set js_whitespace. prefix a b \<longrightarrow> a = b"
  by (simp add: js_whitespace_def)

lemma js_whitespace_nonempty: "[] \<notin> set js_whitespace"
  by (simp add: js_whitespace_def)

text \<open>\<open>!q.trim()\<close> holds exactly of the whitespace-only queries.\<close>

lemma trim_blank: "trim q = [] \<longleftrightarrow> whitespace_only q"
proof
  assume "whitespace_only q"
  then obtain ws where "set ws \<subseteq> set js_whitespace" "q = concat ws"
    by (auto simp: whitespace_only_def)
  then have "trimStart q = []"
    unfolding trimStart_def
    using strip_tokens_concat [OF js_whitespace_prefix_free js_whitespace_nonempty] by simp
  then show "trim q = []"
    by (simp add: trim_def trimEnd_def strip_tokens_Nil)
next
  assume "trim q = []"
  then have e: "strip_tokens (map rev js_whitespace) (rev (trimStart q)) = []"
    by (simp add: trim_def trimEnd_def)
  from strip_tokens_decomp [of "map rev js_whitespace" "rev (trimStart q)"] e
  obtain rs where rs: "set rs \<subseteq> set (map rev js_whitespace)" "rev (trimStart q) = concat rs"
    by auto
  from rs(2) have "trimStart q = rev (concat rs)"
    by (metis rev_rev_ident)
  then have b: "trimStart q = concat (map rev (rev rs))"
    by (simp add: rev_concat)
  from rs(1) have bs: "set (map rev (rev rs)) \<subseteq> set js_whitespace"
    by auto
  from strip_tokens_decomp [of js_whitespace q]
  obtain ts where ts: "set ts \<subseteq> set js_whitespace" "q = concat ts @ trimStart q"
    by (auto simp: trimStart_def)
  from ts(2) b have "q = concat (ts @ map rev (rev rs))"
    by simp
  moreover from ts(1) bs have "set (ts @ map rev (rev rs)) \<subseteq> set js_whitespace"
    by simp
  ultimately show "whitespace_only q"
    unfolding whitespace_only_def by blast
qed

lemma matchesAll_named:
  assumes "name item \<noteq> None"
  shows "matchesAll lc q e t item =
         Inr (spec_text_match lc q item \<and> spec_expiry_match e item \<and>
              spec_category_match t item)"
proof -
  from assms obtain n where n: "name item = Some n" by auto
  show ?thesis
    by (auto simp: matchesAll_def matchesText_def n trim_blank includes_sublist
        spec_text_match_def spec_expiry_match_def spec_category_match_def matchesExpiry_def
        matchesType_def)
qed

lemma matchesAll_blank:
  assumes "whitespace_only q"
  shows "matchesAll lc q ''all'' ''all'' item = Inr True"
  using assms
  by (simp add: matchesAll_def matchesText_def trim_blank matchesExpiry_def matchesType_def)

lemma matchesText_case:
  assumes "lc q = lc q'" and "whitespace_only q \<longleftrightarrow> whitespace_only q'"
  shows "matchesText lc q item = matchesText lc q' item"
  unfolding matchesText_def trim_blank assms(1) using assms(2) by simp

lemma filter_js_total:
  assumes "\<forall>x \<in> set xs. p x = Inr (P x)"
  shows "filter_js p xs = Inr (filter P xs)"
  using assms by (induction xs) auto

lemma filter_js_all:
  assumes "\<forall>x \<in> set xs. p x = Inr True"
  shows "filter_js p xs = Inr xs"
  using assms by (induction xs) auto

lemma whitespace_only_Nil: "whitespace_only []"
  unfolding whitespace_only_def by (intro exI [of _ "[]"]) simp

text \<open>
  C3 (as stated) says the filter returns a subsequence for every item list. The name of an
  item is not defaulted on read, and on an item without a name a non-blank query makes the
  callback raise; the filter then returns nothing.
\<close>

theorem filterItems_nameless_raises:
  "filterItems ascii_lower [(blank_item ''i1'')\<lparr>name := None\<rparr>] ''a'' ''all'' ''all'' =
     Inl TypeError"
proof -
  have "trim ''a'' \<noteq> []"
    by (simp add: trim_def trimStart_def trimEnd_def js_whitespace_def strip_tokens.simps)
  then show ?thesis
    by (simp add: filterItems_def matchesAll_def matchesText_def blank_item_def)
qed

text \<open>
  C3 (amended): on every item list whose items all have a name, for every query, expiry
  filter and category filter, and whatever the platform's lower-casing is, the filter
  returns; its result is a subsequence of the input in the input's order, made of exactly
  the items that satisfy all three predicates (query whitespace-only, or contained after
  lower-casing both sides in the name or in the category; expiry filter; category filter).
  With an empty or whitespace-only query and both filters \<open>all\<close> it returns the full input
  unchanged, on every item list. Two queries that are not whitespace-only and have the same
  lower-cased form give the same result.
\<close>

theorem filterItems_subseq:
  "((\<forall>item \<in> set its. name item \<noteq> None) \<longrightarrow>
      filterItems lc its q e t = Inr (spec_filter lc its q e t) \<and>
      subseq (spec_filter lc its q e t) its) \<and>
   (whitespace_only q \<longrightarrow> filterItems lc its q ''all'' ''all'' = Inr its) \<and>
   filterItems lc its [] ''all'' ''all'' = Inr its \<and>
   (lc q = lc q' \<and> \<not> whitespace_only q \<and> \<not> whitespace_only q' \<longrightarrow>
      filterItems lc its q e t = filterItems lc its q' e t)"
proof -
  have named: "filterItems lc its q e t = Inr (spec_filter lc its q e t)"
    if "\<forall>item \<in> set its. name item \<noteq> None"
    unfolding filterItems_def spec_filter_def
    using that by (intro filter_js_total) (simp add: matchesAll_named)
  have sub: "subseq (spec_filter lc its q e t) its"
    by (simp add: spec_filter_def)
  have blank: "filterItems lc its q0 ''all'' ''all'' = Inr its" if "whitespace_only q0" for q0
    unfolding filterItems_def
    by (intro filter_js_all) (simp add: matchesAll_blank [OF that])
  have cases: "filterItems lc its q e t = filterItems lc its q' e t"
    if "lc q = lc q' \<and> \<not> whitespace_only q \<and> \<not> whitespace_only q'"
  proof -
    from that have "matchesText lc q = matchesText lc q'"
      by (intro ext matchesText_case) simp_all
    then have "matchesAll lc q e t = matchesAll lc q' e t"
      by (intro ext) (simp add: matchesAll_def)
    then show ?thesis
      by (simp add: filterItems_def)
  qed
  from named sub blank [of q] blank [OF whitespace_only_Nil] cases show ?thesis
    by blast
qed

theorem filterItems_subseq_witness:
  "filterItems ascii_lower
     [(blank_item ''i1'')\<lparr>name := Some ''Gauze Pads'', typeOfSupply := ''Wound Care''\<rparr>,
      (blank_item ''i2'')\<lparr>name := Some ''Syringe'', isExpired := True\<rparr>,
      (blank_item ''i3'')\<lparr>name := Some ''gauze roll'', typeOfSupply := ''Wound Care''\<rparr>]
     ''GAUZE'' ''not-expired'' ''Wound Care''
   = Inr [(blank_item ''i1'')\<lparr>name := Some ''Gauze Pads'', typeOfSupply := ''Wound Care''\<rparr>,
          (blank_item ''i3'')\<lparr>name := Some ''gauze roll'', typeOfSupply := ''Wound Care''\<rparr>]
   \<and> filterItems ascii_lower [blank_item ''i1'', blank_item ''i2'']
         [CHR 0xC2, CHR 0xA0, CHR 0x20] ''all'' ''all''
       = Inr [blank_item ''i1'', blank_item ''i2'']
   \<and> filterItems ascii_lower [blank_item ''i1'', blank_item ''i2''] ''GAUZE'' ''all'' ''all''
       = filterItems ascii_lower [blank_item ''i1'', blank_item ''i2''] ''gauze'' ''all'' ''all''"
proof -
  let ?a = "(blank_item ''i1'')\<lparr>name := Some ''Gauze Pads'', typeOfSupply := ''Wound Care''\<rparr>"
  let ?b = "(blank_item ''i2'')\<lparr>name := Some ''Syringe'', isExpired := True\<rparr>"
  let ?c = "(blank_item ''i3'')\<lparr>name := Some ''gauze roll'', typeOfSupply := ''Wound Care''\<rparr>"
  have names: "\<forall>item \<in> set [?a, ?b, ?c]. name item \<noteq> None"
    by simp
  have "trim ''GAUZE'' \<noteq> []" and "trim ''gauze'' \<noteq> []"
    by (simp_all add: trim_def trimStart_def trimEnd_def js_whitespace_def strip_tokens.simps)
  then have nb: "\<not> whitespace_only ''GAUZE''" "\<not> whitespace_only ''gauze''"
    by (simp_all add: trim_blank)
  have "trim [CHR 0xC2, CHR 0xA0, CHR 0x20] = []"
    by (simp add: trim_def trimStart_def trimEnd_def js_whitespace_def strip_tokens.simps)
  then have sp: "whitespace_only [CHR 0xC2, CHR 0xA0, CHR 0x20]"
    by (simp add: trim_blank)
  have lc: "ascii_lower ''GAUZE'' = ascii_lower ''gauze''"
    by (simp add: ascii_lower_def ascii_lower_char_def)
  have run: "spec_filter ascii_lower [?a, ?b, ?c] ''GAUZE'' ''not-expired'' ''Wound Care'' =
      [?a, ?c]"
    by (simp add: spec_filter_def spec_text_match_def spec_expiry_match_def
        spec_category_match_def blank_item_def ascii_lower_def ascii_lower_char_def nb
        includes_sublist [symmetric])
  from filterItems_subseq [of "[?a, ?b, ?c]" ascii_lower "''GAUZE''" "''not-expired''"
      "''Wound Care''"] names run
  have 1: "filterItems ascii_lower [?a, ?b, ?c] ''GAUZE'' ''not-expired'' ''Wound Care'' =
      Inr [?a, ?c]"
    by simp
  from filterItems_subseq [of "[blank_item ''i1'', blank_item ''i2'']" ascii_lower
      "[CHR 0xC2, CHR 0xA0, CHR 0x20]"] sp
  have 2: "filterItems ascii_lower [blank_item ''i1'', blank_item ''i2'']
         [CHR 0xC2, CHR 0xA0, CHR 0x20] ''all'' ''all'' = Inr [blank_item ''i1'', blank_item ''i2'']"
    by simp
  from filterItems_subseq [of "[blank_item ''i1'', blank_item ''i2'']" ascii_lower
      "''GAUZE''" "''all''" "''all''" "''gauze''"] lc nb
  have 3: "filterItems ascii_lower [blank_item ''i1'', blank_item ''i2''] ''GAUZE'' ''all'' ''all''
       = filterItems ascii_lower [blank_item ''i1'', blank_item ''i2''] ''gauze'' ''all'' ''all''"
    by blast
  from 1 2 3 show ?thesis
    by (simp only: simp_thms)
qed

section \<open>Facts about the submit handler\<close>

text \<open>The remote calls a submit issues are appended to the log, in order.\<close>

lemmas st_defs = toast_error_def toast_success_def issue_def closeAndReset_def prependNew_def
  fetchItems_start_def

lemma createData_simps [simp]:
  "createData dd None = dd"
  "createData dd (Some f) = dd\<lparr>image_url := Some ''/logo.png''\<rparr>"
  by (simp_all add: createData_def)

lemma upload_state:
  assumes "uploadImageToStorage env f i s = (u, s1)"
  shows "s1 = s\<lparr>calls := calls s @ [StorageUpload (uploadPath env f i) f],
                 uploadingImage := False,
                 toasts := toasts s @ (if u = None then [ToastError ''Failed to upload image''] else [])\<rparr>"
    and "u \<noteq> None \<longleftrightarrow> (\<exists>d. storageUpload env = Resolved d None)"
    and "u \<noteq> None \<Longrightarrow> u = Some (getPublicUrl env (uploadPath env f i))"
  using assms
  by (auto simp: uploadImageToStorage_def Let_def st_defs split: response.splits option.splits)

lemma saveEdit_calls:
  "calls (snd (saveEdit env e dd s)) = calls s @ [DbUpdate (item_id e) dd]"
  by (simp add: saveEdit_def Let_def st_defs split: response.splits option.splits)

lemma afterInsert_calls:
  "\<exists>cs. calls (snd (afterInsert env r s)) = calls s @ cs"
  by (auto simp: afterInsert_def Let_def st_defs uploadImageToStorage_def
      split: response.splits option.splits prod.splits)

lemma saveCreate_calls:
  "\<exists>cs. calls (snd (saveCreate env dd s)) =
     calls s @ DbInsert (createData dd (imageFile s)) # cs"
proof -
  let ?c = "DbInsert (createData dd (imageFile s))"
  have a: "\<exists>cs. calls (snd (whenCompleted (toast_success m) (afterInsert env r (issue ?c s)))) = calls s @ ?c # cs" for r m
  proof -
    obtain fl s2 where r: "afterInsert env r (issue ?c s) = (fl, s2)" by (cases "afterInsert env r (issue ?c s)")
    from afterInsert_calls [of env r "issue ?c s"] r
    show ?thesis by (auto simp: issue_def whenCompleted_def toast_success_def)
  qed
  show ?thesis
  proof (cases "dbInsert env")
    case Rejected
    then show ?thesis by (simp add: saveCreate_def Let_def st_defs)
  next
    case (Resolved data err)
    show ?thesis
    proof (cases err)
      case (Some m)
      with Resolved show ?thesis by (simp add: saveCreate_def Let_def st_defs)
    next
      case None
      show ?thesis
      proof (cases "firstRow data")
        case N: None
        with Resolved None show ?thesis
          by (simp add: saveCreate_def Let_def st_defs whenCompleted_def)
      next
        case (Some r)
        with Resolved None a [of _ r] show ?thesis
          by (simp add: saveCreate_def Let_def)
      qed
    qed
  qed
qed

lemma decideImageUrl_state:
  assumes "decideImageUrl env s = (img, s1)"
  shows "items s1 = items s" and "formData s1 = formData s" and "editingItem s1 = editingItem s"
    and "imageFile s1 = imageFile s" and "isEditModalOpen s1 = isEditModalOpen s"
    and "isNewItemModalOpen s1 = isNewItemModalOpen s" and "imagePreview s1 = imagePreview s"
    and "loading s1 = loading s"
    and "\<exists>cs. calls s1 = calls s @ cs"
    and "editingItem s = None \<or> imageFile s = None \<Longrightarrow>
         s1 = s \<and> img = or_str (fd_imageUrl (formData s)) ''/logo.png''"
  using assms
  by (auto simp: decideImageUrl_def uploadImageToStorage_def Let_def st_defs
      split: option.splits response.splits prod.splits if_splits)

lemma saveBody_calls: "\<exists>c cs. calls (snd (saveBody env s)) = calls s @ c # cs"
proof -
  obtain img s1 where d: "decideImageUrl env s = (img, s1)"
    by (cases "decideImageUrl env s")
  from decideImageUrl_state(9) [OF d] obtain cs0 where c0: "calls s1 = calls s @ cs0" ..
  show ?thesis
  proof (cases "editingItem s")
    case None
    from saveCreate_calls [of env "databaseData (formData s) img" s1]
    obtain c cs where "calls (snd (saveCreate env (databaseData (formData s) img) s1))
        = calls s1 @ c # cs" by blast
    with None d c0 show ?thesis
      by (cases cs0) (simp_all add: saveBody_def Let_def)
  next
    case (Some e)
    with d c0 show ?thesis
      by (cases cs0) (simp_all add: saveBody_def Let_def saveEdit_calls)
  qed
qed

lemma handleSaveItem_calls:
  "\<not> missingRequired (formData s) \<Longrightarrow> \<exists>c cs. calls (handleSaveItem env s) = calls s @ c # cs"
proof -
  assume v: "\<not> missingRequired (formData s)"
  obtain fl s1 where b: "saveBody env s = (fl, s1)" by (cases "saveBody env s")
  with saveBody_calls [of env s] have "\<exists>c cs. calls s1 = calls s @ c # cs" by simp
  with v b show ?thesis
    by (cases fl) (simp_all add: handleSaveItem_def st_defs)
qed

lemma saveEdit_ok:
  assumes "dbUpdate env = Resolved data None"
  shows "saveEdit env e dd s =
    (Completed, toast_success ''Item updated successfully!''
       ((issue (DbUpdate (item_id e) dd) s)
          \<lparr>items := replaceById (updatedItemOf data (formData s) e) (items s)\<rparr>))"
  using assms by (simp add: saveEdit_def Let_def issue_def)

lemma saveEdit_failed:
  "dbUpdate env = Rejected \<Longrightarrow> saveEdit env e dd s = (Thrown, issue (DbUpdate (item_id e) dd) s)"
  "dbUpdate env = Resolved data (Some err) \<Longrightarrow>
     saveEdit env e dd s = (Returned, toast_error ''Failed to update item'' (issue (DbUpdate (item_id e) dd) s))"
  by (simp_all add: saveEdit_def Let_def)

lemma handleSaveItem_edit_ok:
  assumes v: "\<not> missingRequired (formData s)" and e: "editingItem s = Some e"
    and u: "dbUpdate env = Resolved data None"
  shows "items (handleSaveItem env s) = replaceById (updatedItemOf data (formData s) e) (items s)"
    and "\<not> isEditModalOpen (handleSaveItem env s)"
    and "\<not> isNewItemModalOpen (handleSaveItem env s)"
    and "last (toasts (handleSaveItem env s)) = ToastSuccess ''Item updated successfully!''"
    and "last (calls (handleSaveItem env s)) =
           DbUpdate (item_id e) (databaseData (formData s) (fst (decideImageUrl env s)))"
proof -
  obtain img s1 where d: "decideImageUrl env s = (img, s1)"
    by (cases "decideImageUrl env s")
  note st = decideImageUrl_state [OF d]
  have h: "handleSaveItem env s = closeAndReset (toast_success ''Item updated successfully!''
       ((issue (DbUpdate (item_id e) (databaseData (formData s) img)) s1)
          \<lparr>items := replaceById (updatedItemOf data (formData s) e) (items s)\<rparr>))"
    using v e d st(1,2) by (simp add: handleSaveItem_def saveBody_def Let_def saveEdit_ok [OF u])
  show "items (handleSaveItem env s) = replaceById (updatedItemOf data (formData s) e) (items s)"
    and "\<not> isEditModalOpen (handleSaveItem env s)"
    and "\<not> isNewItemModalOpen (handleSaveItem env s)"
    and "last (toasts (handleSaveItem env s)) = ToastSuccess ''Item updated successfully!''"
    and "last (calls (handleSaveItem env s)) =
           DbUpdate (item_id e) (databaseData (formData s) (fst (decideImageUrl env s)))"
    by (simp_all add: h d st_defs)
qed

lemma saveBody_create:
  assumes "editingItem s = None"
  shows "saveBody env s =
         saveCreate env (databaseData (formData s) (or_str (fd_imageUrl (formData s)) ''/logo.png'')) s"
  using assms by (simp add: saveBody_def decideImageUrl_def Let_def split: option.splits)


lemma afterInsert_upload_failed:
  assumes "imageFile s = Some f"
    and "uploadImageToStorage env f (Some (row_id r)) s = (u, s1)" and "\<not> truthy_str u"
  shows "afterInsert env r s = (Completed, prependNew r (or_str (image_url r) ''/logo.png'') s1)"
  using assms by (simp add: afterInsert_def Let_def)

lemma afterInsert_uploaded:
  assumes "imageFile s = Some f"
    and "uploadImageToStorage env f (Some (row_id r)) s = (Some url, s1)" and "url \<noteq> []"
  shows "afterInsert env r s =
     (case dbUpdateImage env of
        Rejected \<Rightarrow> (Thrown, issue (DbUpdateImage (row_id r) url) s1)
      | Resolved d err \<Rightarrow> (Completed, prependNew r url (issue (DbUpdateImage (row_id r) url) s1)))"
  using assms by (simp add: afterInsert_def Let_def truthy_str_def or_str_def split: response.splits)

lemma saveCreate_row:
  assumes "dbInsert env = Resolved data None" and "firstRow data = Some r"
  shows "saveCreate env dd s =
     whenCompleted (toast_success ''Item created successfully!'')
       (afterInsert env r
          (issue (DbInsert (createData dd (imageFile s))) s))"
  using assms by (simp add: saveCreate_def Let_def)


lemma saveCreate_failed:
  "dbInsert env = Rejected \<Longrightarrow> saveCreate env dd s =
     (Thrown, issue (DbInsert (createData dd (imageFile s))) s)"
  "dbInsert env = Resolved data (Some err) \<Longrightarrow> saveCreate env dd s =
     (Returned, toast_error ''Failed to create item'' (issue (DbInsert (createData dd (imageFile s))) s))"
  by (simp_all add: saveCreate_def Let_def)


lemma upload_ok:
  assumes "storageUpload env = Resolved d None"
  shows "uploadImageToStorage env f i s =
     (Some (getPublicUrl env (uploadPath env f i)),
      s\<lparr>uploadingImage := False, calls := calls s @ [StorageUpload (uploadPath env f i) f]\<rparr>)"
  using assms by (simp add: uploadImageToStorage_def Let_def st_defs)

lemma upload_failed:
  assumes "storageUpload env = Rejected \<or> storageUpload env = Resolved d (Some err)"
  shows "uploadImageToStorage env f i s =
     (None,
      s\<lparr>uploadingImage := False, calls := calls s @ [StorageUpload (uploadPath env f i) f],
        toasts := toasts s @ [ToastError ''Failed to upload image'']\<rparr>)"
  using assms by (auto simp: uploadImageToStorage_def Let_def st_defs)

lemma handleSaveItem_create_uploaded:
  assumes v: "\<not> missingRequired (formData s)" and e: "editingItem s = None"
    and f: "imageFile s = Some f"
    and i: "dbInsert env = Resolved data None" and r: "firstRow data = Some r"
    and u: "storageUpload env = Resolved d None"
    and p: "getPublicUrl env (uploadPath env f (Some (row_id r))) \<noteq> []"
    and k: "dbUpdateImage env = Resolved d' err"
  shows "handleSaveItem env s =
     closeAndReset (toast_success ''Item created successfully!''
       (prependNew r (getPublicUrl env (uploadPath env f (Some (row_id r))))
          (s\<lparr>uploadingImage := False,
             calls := calls s @
               [DbInsert ((databaseData (formData s) (or_str (fd_imageUrl (formData s)) ''/logo.png''))
                            \<lparr>image_url := Some ''/logo.png''\<rparr>),
                StorageUpload (uploadPath env f (Some (row_id r))) f,
                DbUpdateImage (row_id r) (getPublicUrl env (uploadPath env f (Some (row_id r))))]\<rparr>)))"
proof -
  let ?dd = "(databaseData (formData s) (or_str (fd_imageUrl (formData s)) ''/logo.png''))
                            \<lparr>image_url := Some ''/logo.png''\<rparr>"
  let ?s1 = "issue (DbInsert ?dd) s"
  let ?url = "getPublicUrl env (uploadPath env f (Some (row_id r)))"
  have f1: "imageFile ?s1 = Some f" using f by (simp add: issue_def)
  have a: "afterInsert env r ?s1 =
      (Completed, prependNew r ?url (issue (DbUpdateImage (row_id r) ?url)
         (?s1\<lparr>uploadingImage := False,
               calls := calls ?s1 @ [StorageUpload (uploadPath env f (Some (row_id r))) f]\<rparr>)))"
    using afterInsert_uploaded [OF f1 upload_ok [OF u] p] k by simp
  have "saveBody env s = (Completed, toast_success ''Item created successfully!''
      (prependNew r ?url (issue (DbUpdateImage (row_id r) ?url)
         (?s1\<lparr>uploadingImage := False,
               calls := calls ?s1 @ [StorageUpload (uploadPath env f (Some (row_id r))) f]\<rparr>))))"
    using f by (simp add: saveBody_create [OF e] saveCreate_row [OF i r] a whenCompleted_def)
  with v show ?thesis
    by (simp add: handleSaveItem_def st_defs)
qed

lemma handleSaveItem_create_upload_failed:
  assumes v: "\<not> missingRequired (formData s)" and e: "editingItem s = None"
    and f: "imageFile s = Some f"
    and i: "dbInsert env = Resolved data None" and r: "firstRow data = Some r"
    and u: "storageUpload env = Rejected \<or> storageUpload env = Resolved d (Some err)"
  shows "handleSaveItem env s =
     closeAndReset (toast_success ''Item created successfully!''
       (prependNew r (or_str (image_url r) ''/logo.png'')
          (s\<lparr>uploadingImage := False,
             calls := calls s @
               [DbInsert ((databaseData (formData s) (or_str (fd_imageUrl (formData s)) ''/logo.png''))
                            \<lparr>image_url := Some ''/logo.png''\<rparr>),
                StorageUpload (uploadPath env f (Some (row_id r))) f],
             toasts := toasts s @ [ToastError ''Failed to upload image'']\<rparr>)))"
proof -
  let ?dd = "(databaseData (formData s) (or_str (fd_imageUrl (formData s)) ''/logo.png''))
                            \<lparr>image_url := Some ''/logo.png''\<rparr>"
  let ?s1 = "issue (DbInsert ?dd) s"
  have f1: "imageFile ?s1 = Some f" using f by (simp add: issue_def)
  have a: "afterInsert env r ?s1 =
      (Completed, prependNew r (or_str (image_url r) ''/logo.png'')
         (?s1\<lparr>uploadingImage := False,
               calls := calls ?s1 @ [StorageUpload (uploadPath env f (Some (row_id r))) f],
               toasts := toasts ?s1 @ [ToastError ''Failed to upload image'']\<rparr>))"
    using afterInsert_upload_failed [OF f1 upload_failed [OF u]] by (simp add: truthy_str_def)
  have "saveBody env s = (Completed, toast_success ''Item created successfully!''
      (prependNew r (or_str (image_url r) ''/logo.png'')
         (?s1\<lparr>uploadingImage := False,
               calls := calls ?s1 @ [StorageUpload (uploadPath env f (Some (row_id r))) f],
               toasts := toasts ?s1 @ [ToastError ''Failed to upload image'']\<rparr>)))"
    using f by (simp add: saveBody_create [OF e] saveCreate_row [OF i r] a whenCompleted_def)
  with v show ?thesis
    by (simp add: handleSaveItem_def st_defs)
qed

text \<open>Facts about the concrete inputs.\<close>

lemma storedRow_simps [simp]:
  "row_id (storedRow i dd) = i" "image_url (storedRow i dd) = image_url dd"
  by (simp_all add: storedRow_def dbdata.defs row.defs)

lemma sample_valid: "\<not> missingRequired sample_draft"
  by (simp add: sample_draft_def emptyDraft_def missingRequired_def truthy_str_def truthy_num_def)

lemma sample_path:
  "uploadPath good_env sample_file (Some ''n7'') = ''medical-supplies/n7-1700000000000.png''"
  by (simp add: uploadPath_def good_env_def sample_file_def)




lemma handleSaveItem_calls_eq:
  assumes "\<not> missingRequired (formData s)"
  shows "calls (handleSaveItem env s) = calls (snd (saveBody env s))"
proof -
  obtain fl s1 where b: "saveBody env s = (fl, s1)"
    by (cases "saveBody env s")
  with assms show ?thesis
    by (cases fl) (simp_all add: handleSaveItem_def st_defs)
qed

lemma decideImageUrl_edit_upload_failed:
  assumes "editingItem s = Some e" and "imageFile s = Some f"
    and "storageUpload env = Rejected \<or> storageUpload env = Resolved d (Some err)"
  shows "decideImageUrl env s =
     (imageUrl e,
      s\<lparr>uploadingImage := False,
        calls := calls s @ [StorageUpload (uploadPath env f (Some (item_id e))) f],
        toasts := toasts s @ [ToastError ''Failed to upload image'']\<rparr>)"
  using assms(1,2)
  by (simp add: decideImageUrl_def upload_failed [OF assms(3)] truthy_str_def)

text \<open>What the two ways of opening the form establish for a user who may manage.\<close>

lemma openEditModal_draft:
  assumes "canManage (userRoles s)"
  shows "editingItem (openEditModal item s) = Some item"
    and "fd_imageUrl (formData (openEditModal item s)) = Some (imageUrl item)"
    and "imageFile (openEditModal item s) = None"
  using assms by (simp_all add: openEditModal_def draftOf_def)

lemma openNewItemModal_draft:
  assumes "canManage (userRoles s)"
  shows "editingItem (openNewItemModal s) = None"
    and "fd_imageUrl (formData (openNewItemModal s)) = Some ''/logo.png''"
    and "missingRequired (formData (openNewItemModal s))"
  using assms
  by (simp_all add: openNewItemModal_def newItemDraft_def missingRequired_def truthy_str_def)

lemma modals_gated:
  assumes "\<not> canManage (userRoles s)"
  shows "openEditModal item s = s" and "openNewItemModal s = s"
  using assms by (simp_all add: openEditModal_def openNewItemModal_def)

section \<open>Validation before submit\<close>

text \<open>
  C5: the guard that opens the submit handler rejects every draft in which the name, the
  quantity, the category (type of supply) or the expiration date is absent, empty or zero,
  a quantity of exactly 0 included: the handler then only shows the notice
  "Please fill in all required fields" and issues no call. A draft with all four present
  and non-empty and a nonzero quantity passes: the handler goes on to a remote call and
  does not stop at that notice.
\<close>

theorem validateForSubmit_guard:
  "((fd_name (formData s) = None \<or> fd_name (formData s) = Some [] \<or>
     fd_quantity (formData s) = None \<or> fd_quantity (formData s) = Some 0 \<or>
     fd_typeOfSupply (formData s) = None \<or> fd_typeOfSupply (formData s) = Some [] \<or>
     fd_expiresOn (formData s) = None \<or> fd_expiresOn (formData s) = Some [])
    \<longrightarrow> handleSaveItem env s =
          s\<lparr>toasts := toasts s @ [ToastError ''Please fill in all required fields'']\<rparr>) \<and>
   (fd_name (formData s) = Some n \<and> n \<noteq> [] \<and>
    fd_quantity (formData s) = Some q \<and> q \<noteq> 0 \<and>
    fd_typeOfSupply (formData s) = Some t \<and> t \<noteq> [] \<and>
    fd_expiresOn (formData s) = Some d \<and> d \<noteq> []
    \<longrightarrow> (\<exists>c cs. calls (handleSaveItem env s) = calls s @ c # cs) \<and>
        handleSaveItem env s \<noteq>
          s\<lparr>toasts := toasts s @ [ToastError ''Please fill in all required fields'']\<rparr>)"
proof (intro conjI impI)
  assume "fd_name (formData s) = None \<or> fd_name (formData s) = Some [] \<or>
     fd_quantity (formData s) = None \<or> fd_quantity (formData s) = Some 0 \<or>
     fd_typeOfSupply (formData s) = None \<or> fd_typeOfSupply (formData s) = Some [] \<or>
     fd_expiresOn (formData s) = None \<or> fd_expiresOn (formData s) = Some []"
  then have "missingRequired (formData s)"
    by (auto simp: missingRequired_def truthy_str_def truthy_num_def)
  then show "handleSaveItem env s =
      s\<lparr>toasts := toasts s @ [ToastError ''Please fill in all required fields'']\<rparr>"
    by (simp add: handleSaveItem_def toast_error_def)
next
  assume a: "fd_name (formData s) = Some n \<and> n \<noteq> [] \<and>
    fd_quantity (formData s) = Some q \<and> q \<noteq> 0 \<and>
    fd_typeOfSupply (formData s) = Some t \<and> t \<noteq> [] \<and>
    fd_expiresOn (formData s) = Some d \<and> d \<noteq> []"
  then have v: "\<not> missingRequired (formData s)"
    by (simp add: missingRequired_def truthy_str_def truthy_num_def)
  from handleSaveItem_calls [OF v]
  show c: "\<exists>c cs. calls (handleSaveItem env s) = calls s @ c # cs" .
  show "handleSaveItem env s \<noteq>
      s\<lparr>toasts := toasts s @ [ToastError ''Please fill in all required fields'']\<rparr>"
  proof
    assume "handleSaveItem env s =
      s\<lparr>toasts := toasts s @ [ToastError ''Please fill in all required fields'']\<rparr>"
    then have "calls (handleSaveItem env s) = calls s" by simp
    with c show False by simp
  qed
qed

theorem validateForSubmit_guard_witness:
  "handleSaveItem good_env (create_state\<lparr>formData := sample_draft\<lparr>fd_quantity := Some 0\<rparr>\<rparr>) =
     create_state\<lparr>formData := sample_draft\<lparr>fd_quantity := Some 0\<rparr>,
       toasts := [ToastError ''Please fill in all required fields'']\<rparr> \<and>
   (\<exists>c cs. calls (handleSaveItem good_env create_state) = c # cs)"
  using validateForSubmit_guard [where s = "create_state\<lparr>formData := sample_draft\<lparr>fd_quantity := Some 0\<rparr>\<rparr>"
      and env = good_env]
    validateForSubmit_guard [where s = create_state and env = good_env and n = "''Gauze''"
      and q = 4 and t = "''Wound Care''" and d = "''2026-01-31''"]
  by (simp add: create_state_def sample_draft_def emptyDraft_def)

section \<open>Edit without a returned row\<close>

text \<open>
  C10: in edit mode, when the update succeeds but returns no row, the entry of the local
  collection with the edited item's id is replaced by the draft merged over the previous
  item. The merge, stated for any draft: the id is the previous id; every field the draft
  leaves undefined keeps its pre-edit value; every field the draft sets takes the draft's
  value (the name when it is set and not empty, since the name is merged with \<open>||\<close>).
\<close>

theorem edit_fallback_merges_draft:
  assumes "\<not> missingRequired (formData s)" and "editingItem s = Some e"
    and "dbUpdate env = Resolved data None" and "data = None \<or> data = Some []"
  shows "items (handleSaveItem env s) =
           map (\<lambda>i. if item_id i = item_id e then mergedItem (formData s) e else i) (items s) \<and>
         item_id (mergedItem fd e) = item_id e \<and>
         (fd_name fd = None \<or> fd_name fd = Some [] \<longrightarrow> name (mergedItem fd e) = name e) \<and>
         (\<forall>v. fd_name fd = Some v \<and> v \<noteq> [] \<longrightarrow> name (mergedItem fd e) = Some v) \<and>
         (fd_description fd = None \<longrightarrow> description (mergedItem fd e) = description e) \<and>
         (\<forall>v. fd_description fd = Some v \<longrightarrow> description (mergedItem fd e) = v) \<and>
         (fd_lotNumber fd = None \<longrightarrow> lotNumber (mergedItem fd e) = lotNumber e) \<and>
         (\<forall>v. fd_lotNumber fd = Some v \<longrightarrow> lotNumber (mergedItem fd e) = v) \<and>
         (fd_expiresOn fd = None \<longrightarrow> expiresOn (mergedItem fd e) = expiresOn e) \<and>
         (\<forall>v. fd_expiresOn fd = Some v \<longrightarrow> expiresOn (mergedItem fd e) = v) \<and>
         (fd_quantity fd = None \<longrightarrow> quantity (mergedItem fd e) = quantity e) \<and>
         (\<forall>v. fd_quantity fd = Some v \<longrightarrow> quantity (mergedItem fd e) = v) \<and>
         (fd_imageUrl fd = None \<longrightarrow> imageUrl (mergedItem fd e) = imageUrl e) \<and>
         (\<forall>v. fd_imageUrl fd = Some v \<longrightarrow> imageUrl (mergedItem fd e) = v) \<and>
         (fd_isExpired fd = None \<longrightarrow> isExpired (mergedItem fd e) = isExpired e) \<and>
         (\<forall>v. fd_isExpired fd = Some v \<longrightarrow> isExpired (mergedItem fd e) = v) \<and>
         (fd_typeOfSupply fd = None \<longrightarrow> typeOfSupply (mergedItem fd e) = typeOfSupply e) \<and>
         (\<forall>v. fd_typeOfSupply fd = Some v \<longrightarrow> typeOfSupply (mergedItem fd e) = v) \<and>
         (fd_palletLocation fd = None \<longrightarrow> palletLocation (mergedItem fd e) = palletLocation e) \<and>
         (\<forall>v. fd_palletLocation fd = Some v \<longrightarrow> palletLocation (mergedItem fd e) = v) \<and>
         (fd_company fd = None \<longrightarrow> company (mergedItem fd e) = company e) \<and>
         (\<forall>v. fd_company fd = Some v \<longrightarrow> company (mergedItem fd e) = v) \<and>
         (fd_cardboardBoxesPerPallet fd = None \<longrightarrow> cardboardBoxesPerPallet (mergedItem fd e) = cardboardBoxesPerPallet e) \<and>
         (\<forall>v. fd_cardboardBoxesPerPallet fd = Some v \<longrightarrow> cardboardBoxesPerPallet (mergedItem fd e) = v) \<and>
         (fd_unitBoxesPerCardboard fd = None \<longrightarrow> unitBoxesPerCardboard (mergedItem fd e) = unitBoxesPerCardboard e) \<and>
         (\<forall>v. fd_unitBoxesPerCardboard fd = Some v \<longrightarrow> unitBoxesPerCardboard (mergedItem fd e) = v) \<and>
         (fd_unitsPerBox fd = None \<longrightarrow> unitsPerBox (mergedItem fd e) = unitsPerBox e) \<and>
         (\<forall>v. fd_unitsPerBox fd = Some v \<longrightarrow> unitsPerBox (mergedItem fd e) = v) \<and>
         (fd_weightPerCardboardBox fd = None \<longrightarrow> weightPerCardboardBox (mergedItem fd e) = weightPerCardboardBox e) \<and>
         (\<forall>v. fd_weightPerCardboardBox fd = Some v \<longrightarrow> weightPerCardboardBox (mergedItem fd e) = v) \<and>
         (fd_dimensionsCardboardBox fd = None \<longrightarrow> dimensionsCardboardBox (mergedItem fd e) = dimensionsCardboardBox e) \<and>
         (\<forall>v. fd_dimensionsCardboardBox fd = Some v \<longrightarrow> dimensionsCardboardBox (mergedItem fd e) = v) \<and>
         (fd_costPerUnitBox fd = None \<longrightarrow> costPerUnitBox (mergedItem fd e) = costPerUnitBox e) \<and>
         (\<forall>v. fd_costPerUnitBox fd = Some v \<longrightarrow> costPerUnitBox (mergedItem fd e) = v) \<and>
         (fd_costPerCardboardBox fd = None \<longrightarrow> costPerCardboardBox (mergedItem fd e) = costPerCardboardBox e) \<and>
         (\<forall>v. fd_costPerCardboardBox fd = Some v \<longrightarrow> costPerCardboardBox (mergedItem fd e) = v) \<and>
         (fd_relevantLink fd = None \<longrightarrow> relevantLink (mergedItem fd e) = relevantLink e) \<and>
         (\<forall>v. fd_relevantLink fd = Some v \<longrightarrow> relevantLink (mergedItem fd e) = v) \<and>
         (fd_otherNotes fd = None \<longrightarrow> otherNotes (mergedItem fd e) = otherNotes e) \<and>
         (\<forall>v. fd_otherNotes fd = Some v \<longrightarrow> otherNotes (mergedItem fd e) = v)"
proof -
  from assms(4) have "firstRow data = None"
    by (auto simp: firstRow_def)
  then have u: "updatedItemOf data (formData s) e = mergedItem (formData s) e"
    by (simp add: updatedItemOf_def)
  have i: "item_id (mergedItem (formData s) e) = item_id e"
    by (simp add: mergedItem_def)
  from handleSaveItem_edit_ok(1) [OF assms(1-3)] u i
  have "items (handleSaveItem env s) =
      map (\<lambda>i. if item_id i = item_id e then mergedItem (formData s) e else i) (items s)"
    by (simp add: replaceById_def)
  moreover have "name (mergedItem fd e) = name e" if "fd_name fd = None \<or> fd_name fd = Some []"
    using that by (auto simp: mergedItem_def or_str_opt_def truthy_str_def)
  moreover have "name (mergedItem fd e) = Some v" if "fd_name fd = Some v \<and> v \<noteq> []" for v
    using that by (simp add: mergedItem_def or_str_opt_def truthy_str_def)
  ultimately show ?thesis
    by (simp add: mergedItem_def nullish_def)
qed

theorem edit_fallback_merges_draft_witness:
  "items (handleSaveItem (good_env\<lparr>dbUpdate := Resolved (Some []) None\<rparr>) edit_state) =
     [blank_item ''i0'', edited_item\<lparr>quantity := 9\<rparr>] \<and>
   quantity (mergedItem (emptyDraft\<lparr>fd_quantity := Some 9\<rparr>) edited_item) = 9 \<and>
   description (mergedItem (emptyDraft\<lparr>fd_quantity := Some 9\<rparr>) edited_item) =
     description edited_item \<and>
   name (mergedItem (emptyDraft\<lparr>fd_quantity := Some 9\<rparr>) edited_item) = name edited_item"
proof -
  have v: "\<not> missingRequired (formData edit_state)"
    by (simp add: edit_state_def draftOf_def edited_item_def blank_item_def missingRequired_def
        truthy_str_def truthy_num_def)
  have m: "mergedItem (formData edit_state) edited_item = edited_item\<lparr>quantity := 9\<rparr>"
    by (simp add: edit_state_def draftOf_def edited_item_def blank_item_def mergedItem_def
        nullish_def or_str_opt_def truthy_str_def)
  have r: "map (\<lambda>i. if item_id i = item_id edited_item
               then mergedItem (formData edit_state) edited_item else i) (items edit_state) =
     [blank_item ''i0'', edited_item\<lparr>quantity := 9\<rparr>]"
    unfolding m by (simp add: edit_state_def edited_item_def blank_item_def)
  have e: "editingItem edit_state = Some edited_item"
    and u: "dbUpdate (good_env\<lparr>dbUpdate := Resolved (Some []) None\<rparr>) = Resolved (Some []) None"
    and d: "Some [] = (None :: row list option) \<or> Some [] = (Some [] :: row list option)"
    by (simp_all add: edit_state_def)
  note t = edit_fallback_merges_draft [OF v e u d,
      where fd = "emptyDraft\<lparr>fd_quantity := Some 9\<rparr>"]
  have a: "items (handleSaveItem (good_env\<lparr>dbUpdate := Resolved (Some []) None\<rparr>) edit_state) =
     [blank_item ''i0'', edited_item\<lparr>quantity := 9\<rparr>]"
    using t [THEN conjunct1] by (simp only: r)
  have q: "fd_quantity (emptyDraft\<lparr>fd_quantity := Some 9\<rparr>) = Some 9"
    and n: "fd_description (emptyDraft\<lparr>fd_quantity := Some 9\<rparr>) = None"
      "fd_name (emptyDraft\<lparr>fd_quantity := Some 9\<rparr>) = None"
    by (simp_all add: emptyDraft_def)
  from t q n have
    "quantity (mergedItem (emptyDraft\<lparr>fd_quantity := Some 9\<rparr>) edited_item) = 9"
    "description (mergedItem (emptyDraft\<lparr>fd_quantity := Some 9\<rparr>) edited_item) =
       description edited_item"
    "name (mergedItem (emptyDraft\<lparr>fd_quantity := Some 9\<rparr>) edited_item) = name edited_item"
    by simp_all
  with a show ?thesis
    by (simp only: simp_thms)
qed

section \<open>Create with an attached image\<close>

text \<open>
  C1 (as stated) speaks of every create-mode submit with an attached image. When the upload
  fails the handler stops after the insert: the log holds one persistence call, no patch,
  and the new record keeps the placeholder.
\<close>

theorem create_with_image_upload_failed:
  "calls (handleSaveItem (good_env\<lparr>storageUpload := Rejected\<rparr>)
            (create_state\<lparr>imageFile := Some sample_file\<rparr>)) =
     [DbInsert (databaseData sample_draft ''/logo.png''),
      StorageUpload ''medical-supplies/n7-1700000000000.png'' sample_file] \<and>
   imageUrl (hd (items (handleSaveItem (good_env\<lparr>storageUpload := Rejected\<rparr>)
                          (create_state\<lparr>imageFile := Some sample_file\<rparr>)))) = ''/logo.png''"
proof -
  let ?env = "good_env\<lparr>storageUpload := Rejected\<rparr>"
  let ?s = "create_state\<lparr>imageFile := Some sample_file\<rparr>"
  let ?r = "storedRow ''n7'' (databaseData sample_draft ''/logo.png'')"
  have p: "uploadPath ?env sample_file (Some ''n7'') = ''medical-supplies/n7-1700000000000.png''"
    by (simp add: uploadPath_def good_env_def sample_file_def)
  have dd: "(databaseData sample_draft ''/logo.png'')\<lparr>image_url := Some ''/logo.png''\<rparr> =
      databaseData sample_draft ''/logo.png''"
    by (simp add: databaseData_def)
  have "handleSaveItem ?env ?s =
     closeAndReset (toast_success ''Item created successfully!''
       (prependNew ?r (or_str (image_url ?r) ''/logo.png'')
          (?s\<lparr>uploadingImage := False,
             calls := calls ?s @
               [DbInsert ((databaseData (formData ?s) (or_str (fd_imageUrl (formData ?s)) ''/logo.png''))
                            \<lparr>image_url := Some ''/logo.png''\<rparr>),
                StorageUpload (uploadPath ?env sample_file (Some (row_id ?r))) sample_file],
             toasts := toasts ?s @ [ToastError ''Failed to upload image'']\<rparr>)))"
    by (rule handleSaveItem_create_upload_failed [where data = "Some [?r]"])
       (simp_all add: create_state_def sample_valid good_env_def firstRow_def)
  then show ?thesis
    by (simp add: p dd st_defs itemOfSavedRow_def)
       (simp add: create_state_def sample_draft_def or_str_def databaseData_def)
qed

text \<open>
  C1 (amended): for every create-mode submit of a valid draft with an attached image in
  which the insert succeeds and returns the new row, the upload succeeds with a non-empty
  public URL and the patch call resolves without an error: the record is first inserted
  with the placeholder image reference, then the image is uploaded under a path keyed by
  the newly assigned id, then the record is patched with the uploaded object's URL.
  Exactly two persistence calls are made, insert then update, and the record prepended to
  the local collection carries the uploaded object's URL. Nothing is said here of a patch
  that resolves with an error.
\<close>

theorem create_with_image_two_phase:
  assumes "\<not> missingRequired (formData s)" and "editingItem s = None"
    and "imageFile s = Some f"
    and "dbInsert env = Resolved (Some (newRow # rest)) None"
    and "storageUpload env = Resolved d None"
    and "getPublicUrl env (uploadPath env f (Some (row_id newRow))) \<noteq> []"
    and "dbUpdateImage env = Resolved d' None"
  shows "calls (handleSaveItem env s) = calls s @
           [DbInsert ((databaseData (formData s) (or_str (fd_imageUrl (formData s)) ''/logo.png''))
                        \<lparr>image_url := Some ''/logo.png''\<rparr>),
            StorageUpload (uploadPath env f (Some (row_id newRow))) f,
            DbUpdateImage (row_id newRow)
              (getPublicUrl env (uploadPath env f (Some (row_id newRow))))] \<and>
         (row_id newRow \<noteq> [] \<longrightarrow>
            uploadPath env f (Some (row_id newRow)) =
              ''medical-supplies/'' @ row_id newRow @ ''-'' @ now env @ ''.'' @
                last (split_js CHR ''.'' (file_name f))) \<and>
         items (handleSaveItem env s) =
           itemOfSavedRow newRow (getPublicUrl env (uploadPath env f (Some (row_id newRow))))
             # items s \<and>
         imageUrl (hd (items (handleSaveItem env s))) =
           getPublicUrl env (uploadPath env f (Some (row_id newRow)))"
proof -
  have r: "firstRow (Some (newRow # rest)) = Some newRow"
    by (simp add: firstRow_def)
  note h = handleSaveItem_create_uploaded [OF assms(1-4) r assms(5,6,7)]
  show ?thesis
    by (simp add: h st_defs itemOfSavedRow_def uploadPath_def Let_def)
qed

theorem create_with_image_two_phase_witness:
  "calls (handleSaveItem good_env (create_state\<lparr>imageFile := Some sample_file\<rparr>)) =
     [DbInsert (databaseData sample_draft ''/logo.png''),
      StorageUpload ''medical-supplies/n7-1700000000000.png'' sample_file,
      DbUpdateImage ''n7'' ''https://cdn/medical-supplies/n7-1700000000000.png''] \<and>
   imageUrl (hd (items (handleSaveItem good_env (create_state\<lparr>imageFile := Some sample_file\<rparr>)))) =
     ''https://cdn/medical-supplies/n7-1700000000000.png''"
proof -
  let ?s = "create_state\<lparr>imageFile := Some sample_file\<rparr>"
  let ?r = "storedRow ''n7'' (databaseData sample_draft ''/logo.png'')"
  have v: "\<not> missingRequired (formData ?s)"
    by (simp add: create_state_def sample_valid)
  have e: "editingItem ?s = None" and f: "imageFile ?s = Some sample_file"
    by (simp_all add: create_state_def)
  have i: "dbInsert good_env = Resolved (Some [?r]) None"
    and u: "storageUpload good_env = Resolved None None"
    and k: "dbUpdateImage good_env = Resolved None None"
    by (simp_all add: good_env_def)
  have p: "getPublicUrl good_env (uploadPath good_env sample_file (Some (row_id ?r))) \<noteq> []"
    by (simp add: good_env_def)
  have url: "getPublicUrl good_env ''medical-supplies/n7-1700000000000.png'' =
      ''https://cdn/medical-supplies/n7-1700000000000.png''"
    by (simp add: good_env_def)
  have dd: "(databaseData (formData ?s) (or_str (fd_imageUrl (formData ?s)) ''/logo.png''))
       \<lparr>image_url := Some ''/logo.png''\<rparr> = databaseData sample_draft ''/logo.png''"
    by (simp add: create_state_def sample_draft_def or_str_def databaseData_def)
  have cs: "calls ?s = []"
    by (simp add: create_state_def)
  note t = create_with_image_two_phase [OF v e f i u p k]
  have c: "calls (handleSaveItem good_env ?s) =
     [DbInsert (databaseData sample_draft ''/logo.png''),
      StorageUpload ''medical-supplies/n7-1700000000000.png'' sample_file,
      DbUpdateImage ''n7'' ''https://cdn/medical-supplies/n7-1700000000000.png'']"
    using t [THEN conjunct1] by (simp only: dd cs storedRow_simps sample_path url append_Nil)
  have m: "imageUrl (hd (items (handleSaveItem good_env ?s))) =
     ''https://cdn/medical-supplies/n7-1700000000000.png''"
    using t [THEN conjunct2, THEN conjunct2, THEN conjunct2]
    by (simp only: storedRow_simps sample_path url)
  from c m show ?thesis ..
qed


section \<open>Patching the local collection\<close>




section \<open>Edit with a failed upload\<close>

text \<open>
  C4: in every edit-mode submit of a valid draft with an attached image whose upload fails
  (the call rejects or the store reports an error), the handler still issues the update,
  and the payload's image reference is the existing item's current image reference. When
  that update succeeds the submit ends as a success (notice, entry replaced, modal
  closed); the local entry keeps the pre-edit image reference whenever the store returns
  the reference it was sent, or returns no row and the draft's image reference is the one
  the edit modal was opened with.
\<close>

theorem edit_upload_failure_keeps_image:
  assumes "\<not> missingRequired (formData s)" and "editingItem s = Some e"
    and "imageFile s = Some f"
    and "storageUpload env = Rejected \<or> storageUpload env = Resolved d (Some err)"
  shows
   "calls (handleSaveItem env s) = calls s @
      [StorageUpload (uploadPath env f (Some (item_id e))) f,
       DbUpdate (item_id e) (databaseData (formData s) (imageUrl e))] \<and>
    image_url (databaseData (formData s) (imageUrl e)) = Some (imageUrl e) \<and>
    (\<forall>data. dbUpdate env = Resolved data None \<longrightarrow>
       toasts (handleSaveItem env s) = toasts s @
         [ToastError ''Failed to upload image'', ToastSuccess ''Item updated successfully!''] \<and>
       items (handleSaveItem env s) =
         replaceById (updatedItemOf data (formData s) e) (items s) \<and>
       \<not> isEditModalOpen (handleSaveItem env s) \<and>
       ((data = None \<or> data = Some []) \<and>
        (fd_imageUrl (formData s) = None \<or> fd_imageUrl (formData s) = Some (imageUrl e))
          \<longrightarrow> imageUrl (updatedItemOf data (formData s) e) = imageUrl e) \<and>
       (\<forall>r rs. data = Some (r # rs) \<and> image_url r = Some (imageUrl e) \<and> imageUrl e \<noteq> []
          \<longrightarrow> imageUrl (updatedItemOf data (formData s) e) = imageUrl e))"
proof (intro conjI allI impI)
  note d = decideImageUrl_edit_upload_failed [OF assms(2-4)]
  show "calls (handleSaveItem env s) = calls s @
      [StorageUpload (uploadPath env f (Some (item_id e))) f,
       DbUpdate (item_id e) (databaseData (formData s) (imageUrl e))]"
    using assms(2)
    by (simp add: handleSaveItem_calls_eq [OF assms(1)] saveBody_def d saveEdit_calls)
  show "image_url (databaseData (formData s) (imageUrl e)) = Some (imageUrl e)"
    by (simp add: databaseData_def)
  fix data
  assume u: "dbUpdate env = Resolved data None"
  have h: "handleSaveItem env s =
      closeAndReset (toast_success ''Item updated successfully!''
        ((issue (DbUpdate (item_id e) (databaseData (formData s) (imageUrl e)))
           (s\<lparr>uploadingImage := False,
              calls := calls s @ [StorageUpload (uploadPath env f (Some (item_id e))) f],
              toasts := toasts s @ [ToastError ''Failed to upload image'']\<rparr>))
         \<lparr>items := replaceById (updatedItemOf data (formData s) e) (items s)\<rparr>))"
    using assms(1,2) by (simp add: handleSaveItem_def saveBody_def d saveEdit_ok [OF u])
  show "toasts (handleSaveItem env s) = toasts s @
         [ToastError ''Failed to upload image'', ToastSuccess ''Item updated successfully!'']"
    and "items (handleSaveItem env s) =
         replaceById (updatedItemOf data (formData s) e) (items s)"
    and "\<not> isEditModalOpen (handleSaveItem env s)"
    by (simp_all add: h st_defs)
  show "imageUrl (updatedItemOf data (formData s) e) = imageUrl e"
    if "(data = None \<or> data = Some []) \<and>
        (fd_imageUrl (formData s) = None \<or> fd_imageUrl (formData s) = Some (imageUrl e))"
    using that by (auto simp: updatedItemOf_def firstRow_def mergedItem_def nullish_def)
  show "imageUrl (updatedItemOf data (formData s) e) = imageUrl e"
    if "data = Some (r # rs) \<and> image_url r = Some (imageUrl e) \<and> imageUrl e \<noteq> []" for r rs
    using that by (simp add: updatedItemOf_def firstRow_def itemOfSavedRow_def or_str_def)
qed

theorem edit_upload_failure_keeps_image_witness:
  "calls (handleSaveItem (good_env\<lparr>storageUpload := Rejected\<rparr>)
            (edit_state\<lparr>imageFile := Some sample_file\<rparr>)) =
     [StorageUpload ''medical-supplies/i1-1700000000000.png'' sample_file,
      DbUpdate ''i1'' (databaseData (formData edit_state) ''https://cdn/old.png'')] \<and>
   map imageUrl (items (handleSaveItem (good_env\<lparr>storageUpload := Rejected\<rparr>)
            (edit_state\<lparr>imageFile := Some sample_file\<rparr>))) =
     [''/logo.png'', ''https://cdn/old.png''] \<and>
   imageUrl edited_item = ''https://cdn/old.png''"
proof -
  let ?env = "good_env\<lparr>storageUpload := Rejected\<rparr>"
  let ?s = "edit_state\<lparr>imageFile := Some sample_file\<rparr>"
  let ?fd = "(draftOf edited_item)\<lparr>fd_quantity := Some 9\<rparr>"
  let ?u = "storedRow ''i1'' (databaseData ?fd ''https://cdn/old.png'')"
  have v: "\<not> missingRequired (formData ?s)"
    by (simp add: edit_state_def draftOf_def edited_item_def blank_item_def missingRequired_def
        truthy_str_def truthy_num_def)
  have e: "editingItem ?s = Some edited_item" and f: "imageFile ?s = Some sample_file"
    by (simp_all add: edit_state_def)
  have up: "storageUpload ?env = Rejected \<or> storageUpload ?env = Resolved None (Some [])"
    by simp
  have du: "dbUpdate ?env = Resolved (Some [?u]) None"
    by (simp add: good_env_def)
  have p: "uploadPath ?env sample_file (Some ''i1'') = ''medical-supplies/i1-1700000000000.png''"
    by (simp add: uploadPath_def good_env_def sample_file_def)
  have im: "imageUrl edited_item = ''https://cdn/old.png''" and id: "item_id edited_item = ''i1''"
    by (simp_all add: edited_item_def blank_item_def)
  have fs: "formData ?s = formData edit_state" and cs: "calls ?s = []"
    and its: "items ?s = [blank_item ''i0'', edited_item]"
    by (simp_all add: edit_state_def)
  note t = edit_upload_failure_keeps_image [OF v e f up]
  have c: "calls (handleSaveItem ?env ?s) =
     [StorageUpload ''medical-supplies/i1-1700000000000.png'' sample_file,
      DbUpdate ''i1'' (databaseData (formData edit_state) ''https://cdn/old.png'')]"
    using t [THEN conjunct1] by (simp only: p im id fs cs append_Nil)
  note t2 = t [THEN conjunct2, THEN conjunct2, rule_format, OF du]
  have k: "imageUrl (updatedItemOf (Some [?u]) (formData edit_state) edited_item) =
      ''https://cdn/old.png''"
    using t2 [THEN conjunct2, THEN conjunct2, THEN conjunct2, THEN conjunct2, rule_format,
        of ?u "[]"]
    by (simp add: im databaseData_def fs)
  have i: "item_id (updatedItemOf (Some [?u]) (formData edit_state) edited_item) = ''i1''"
    by (simp add: updatedItemOf_def firstRow_def itemOfSavedRow_def)
  have "map imageUrl (items (handleSaveItem ?env ?s)) = [''/logo.png'', ''https://cdn/old.png'']"
    using t2 [THEN conjunct2, THEN conjunct1]
    by (simp add: its fs replaceById_def i k id blank_item_def)
  with c im show ?thesis
    by (simp only: simp_thms)
qed

section \<open>Persistence failures\<close>

text \<open>
  When the update of an edit, or the insert of a create, fails (the call rejects or the
  store reports an error), the handler leaves the collection, the draft and the modal as
  they were and its last notice is an error.
\<close>

lemma update_failure_keeps_state:
  assumes v: "\<not> missingRequired (formData s)" and e: "editingItem s = Some e"
    and u: "dbUpdate env = Rejected \<or> dbUpdate env = Resolved data (Some err)"
  shows "items (handleSaveItem env s) = items s"
    and "isEditModalOpen (handleSaveItem env s) = isEditModalOpen s"
    and "formData (handleSaveItem env s) = formData s"
    and "editingItem (handleSaveItem env s) = editingItem s"
    and "last (toasts (handleSaveItem env s)) \<in>
           {ToastError ''Failed to save item'', ToastError ''Failed to update item''}"
proof -
  obtain img s1 where d: "decideImageUrl env s = (img, s1)"
    by (cases "decideImageUrl env s")
  note st = decideImageUrl_state [OF d]
  from u have h: "handleSaveItem env s =
      toast_error (if dbUpdate env = Rejected then ''Failed to save item''
                   else ''Failed to update item'')
        (issue (DbUpdate (item_id e) (databaseData (formData s) img)) s1)"
    using v e d by (auto simp: handleSaveItem_def saveBody_def saveEdit_failed)
  show "items (handleSaveItem env s) = items s"
    and "isEditModalOpen (handleSaveItem env s) = isEditModalOpen s"
    and "formData (handleSaveItem env s) = formData s"
    and "editingItem (handleSaveItem env s) = editingItem s"
    and "last (toasts (handleSaveItem env s)) \<in>
           {ToastError ''Failed to save item'', ToastError ''Failed to update item''}"
    by (simp_all add: h st_defs st)
qed

lemma insert_failure_keeps_state:
  assumes v: "\<not> missingRequired (formData s)" and e: "editingItem s = None"
    and u: "dbInsert env = Rejected \<or> dbInsert env = Resolved data (Some err)"
  shows "items (handleSaveItem env s) = items s"
    and "isNewItemModalOpen (handleSaveItem env s) = isNewItemModalOpen s"
    and "formData (handleSaveItem env s) = formData s"
    and "last (toasts (handleSaveItem env s)) \<in>
           {ToastError ''Failed to save item'', ToastError ''Failed to create item''}"
proof -
  from u have h: "handleSaveItem env s =
      toast_error (if dbInsert env = Rejected then ''Failed to save item''
                   else ''Failed to create item'')
        (issue (DbInsert (createData (databaseData (formData s)
            (or_str (fd_imageUrl (formData s)) ''/logo.png'')) (imageFile s))) s)"
    using v by (auto simp: handleSaveItem_def saveBody_create [OF e] saveCreate_failed
        simp del: createData_simps)
  show "items (handleSaveItem env s) = items s"
    and "isNewItemModalOpen (handleSaveItem env s) = isNewItemModalOpen s"
    and "formData (handleSaveItem env s) = formData s"
    and "last (toasts (handleSaveItem env s)) \<in>
           {ToastError ''Failed to save item'', ToastError ''Failed to create item''}"
    by (simp_all add: h st_defs)
qed

text \<open>The same holds when the image patch of a create rejects.\<close>

lemma patch_rejection_keeps_state:
  assumes v: "\<not> missingRequired (formData s)" and e: "editingItem s = None"
    and f: "imageFile s = Some f"
    and i: "dbInsert env = Resolved data None" and r: "firstRow data = Some r"
    and u: "storageUpload env = Resolved d None"
    and p: "getPublicUrl env (uploadPath env f (Some (row_id r))) \<noteq> []"
    and k: "dbUpdateImage env = Rejected"
  shows "items (handleSaveItem env s) = items s"
    and "isNewItemModalOpen (handleSaveItem env s) = isNewItemModalOpen s"
    and "formData (handleSaveItem env s) = formData s"
    and "last (toasts (handleSaveItem env s)) = ToastError ''Failed to save item''"
proof -
  let ?dd = "(databaseData (formData s) (or_str (fd_imageUrl (formData s)) ''/logo.png''))
                            \<lparr>image_url := Some ''/logo.png''\<rparr>"
  let ?s1 = "issue (DbInsert ?dd) s"
  let ?url = "getPublicUrl env (uploadPath env f (Some (row_id r)))"
  have f1: "imageFile ?s1 = Some f" using f by (simp add: issue_def)
  have a: "afterInsert env r ?s1 =
      (Thrown, issue (DbUpdateImage (row_id r) ?url)
         (?s1\<lparr>uploadingImage := False,
               calls := calls ?s1 @ [StorageUpload (uploadPath env f (Some (row_id r))) f]\<rparr>))"
    using afterInsert_uploaded [OF f1 upload_ok [OF u] p] k by simp
  have "saveBody env s = (Thrown, issue (DbUpdateImage (row_id r) ?url)
         (?s1\<lparr>uploadingImage := False,
               calls := calls ?s1 @ [StorageUpload (uploadPath env f (Some (row_id r))) f]\<rparr>))"
    using f by (simp add: saveBody_create [OF e] saveCreate_row [OF i r] a whenCompleted_def)
  with v have h: "handleSaveItem env s = toast_error ''Failed to save item''
       (issue (DbUpdateImage (row_id r) ?url)
         (?s1\<lparr>uploadingImage := False,
               calls := calls ?s1 @ [StorageUpload (uploadPath env f (Some (row_id r))) f]\<rparr>))"
    by (simp add: handleSaveItem_def)
  show "items (handleSaveItem env s) = items s"
    and "isNewItemModalOpen (handleSaveItem env s) = isNewItemModalOpen s"
    and "formData (handleSaveItem env s) = formData s"
    and "last (toasts (handleSaveItem env s)) = ToastError ''Failed to save item''"
    by (simp_all add: h st_defs)
qed

text \<open>
  C2 asks this of every persistence call. The patch that writes the uploaded image
  reference to a freshly created record is awaited but its \<open>error\<close> is never looked
  at. On a valid draft with an image, where insert and upload succeed and the patch
  resolves with an error, the handler prepends the record with the uploaded URL (which
  the store does not hold), shows only the success notice and closes the modal.
\<close>

theorem image_patch_error_ignored:
  "items (create_state\<lparr>imageFile := Some sample_file\<rparr>) = [blank_item ''i1''] \<and>
   isNewItemModalOpen (create_state\<lparr>imageFile := Some sample_file\<rparr>) \<and>
   items (handleSaveItem (good_env\<lparr>dbUpdateImage := Resolved None (Some ''permission denied'')\<rparr>)
            (create_state\<lparr>imageFile := Some sample_file\<rparr>)) =
     [itemOfSavedRow (storedRow ''n7'' (databaseData sample_draft ''/logo.png''))
        ''https://cdn/medical-supplies/n7-1700000000000.png'',
      blank_item ''i1''] \<and>
   toasts (handleSaveItem (good_env\<lparr>dbUpdateImage := Resolved None (Some ''permission denied'')\<rparr>)
            (create_state\<lparr>imageFile := Some sample_file\<rparr>)) =
     [ToastSuccess ''Item created successfully!''] \<and>
   \<not> isNewItemModalOpen
       (handleSaveItem (good_env\<lparr>dbUpdateImage := Resolved None (Some ''permission denied'')\<rparr>)
            (create_state\<lparr>imageFile := Some sample_file\<rparr>))"
proof -
  let ?env = "good_env\<lparr>dbUpdateImage := Resolved None (Some ''permission denied'')\<rparr>"
  let ?s = "create_state\<lparr>imageFile := Some sample_file\<rparr>"
  let ?r = "storedRow ''n7'' (databaseData sample_draft ''/logo.png'')"
  have p: "uploadPath ?env sample_file (Some ''n7'') = ''medical-supplies/n7-1700000000000.png''"
    by (simp add: uploadPath_def good_env_def sample_file_def)
  have url: "getPublicUrl good_env ''medical-supplies/n7-1700000000000.png'' =
      ''https://cdn/medical-supplies/n7-1700000000000.png''"
    by (simp add: good_env_def)
  have "handleSaveItem ?env ?s =
     closeAndReset (toast_success ''Item created successfully!''
       (prependNew ?r (getPublicUrl ?env (uploadPath ?env sample_file (Some (row_id ?r))))
          (?s\<lparr>uploadingImage := False,
             calls := calls ?s @
               [DbInsert ((databaseData (formData ?s) (or_str (fd_imageUrl (formData ?s)) ''/logo.png''))
                            \<lparr>image_url := Some ''/logo.png''\<rparr>),
                StorageUpload (uploadPath ?env sample_file (Some (row_id ?r))) sample_file,
                DbUpdateImage (row_id ?r)
                  (getPublicUrl ?env (uploadPath ?env sample_file (Some (row_id ?r))))]\<rparr>)))"
    by (rule handleSaveItem_create_uploaded [where data = "Some [?r]" and d = None
          and d' = None and err = "Some ''permission denied''"])
       (simp_all add: create_state_def sample_valid good_env_def firstRow_def)
  then show ?thesis
    by (simp add: p url st_defs) (simp add: create_state_def)
qed

section \<open>Role gate and role assignment\<close>

lemma array_includes_set: "array_includes xs x \<longleftrightarrow> x \<in> set xs"
  by (induction xs) auto

lemma role_rank_names:
  "role_rank ''admin'' = 3" "role_rank ''volunteer'' = 2" "role_rank ''visitor'' = 1"
  "role_rank [] = 0"
  by (simp_all add: role_rank_def)

lemma role_rank_bounds:
  "role_rank r \<le> 3"
  "r \<noteq> ''admin'' \<Longrightarrow> role_rank r \<le> 2"
  "r \<noteq> ''admin'' \<Longrightarrow> r \<noteq> ''volunteer'' \<Longrightarrow> role_rank r \<le> 1"
  "r \<noteq> ''admin'' \<Longrightarrow> r \<noteq> ''volunteer'' \<Longrightarrow> r \<noteq> ''visitor'' \<Longrightarrow> role_rank r = 0"
  "role_rank r = 0 \<Longrightarrow> r \<noteq> ''admin'' \<and> r \<noteq> ''volunteer'' \<and> r \<noteq> ''visitor''"
  unfolding role_rank_def by (simp_all split: if_splits)

lemma currentRoleOf_cases:
  "''admin'' \<in> set (roles u) \<Longrightarrow> currentRoleOf u = ''admin''"
  "''admin'' \<notin> set (roles u) \<Longrightarrow> ''volunteer'' \<in> set (roles u) \<Longrightarrow>
     currentRoleOf u = ''volunteer''"
  "''admin'' \<notin> set (roles u) \<Longrightarrow> ''volunteer'' \<notin> set (roles u) \<Longrightarrow>
     ''visitor'' \<in> set (roles u) \<Longrightarrow> currentRoleOf u = ''visitor''"
  "''admin'' \<notin> set (roles u) \<Longrightarrow> ''volunteer'' \<notin> set (roles u) \<Longrightarrow>
     ''visitor'' \<notin> set (roles u) \<Longrightarrow> currentRoleOf u = []"
  unfolding currentRoleOf_def array_includes_set by simp_all

lemma currentRoleOf_winner:
  "currentRoleOf u \<noteq> [] \<Longrightarrow> currentRoleOf u \<in> set (roles u)"
  "r \<in> set (roles u) \<Longrightarrow> role_rank r \<le> role_rank (currentRoleOf u)"
  "currentRoleOf u = [] \<longleftrightarrow> (\<forall>r \<in> set (roles u). role_rank r = 0)"
proof -
  consider (a) "''admin'' \<in> set (roles u)"
    | (v) "''admin'' \<notin> set (roles u)" "''volunteer'' \<in> set (roles u)"
    | (w) "''admin'' \<notin> set (roles u)" "''volunteer'' \<notin> set (roles u)"
          "''visitor'' \<in> set (roles u)"
    | (n) "''admin'' \<notin> set (roles u)" "''volunteer'' \<notin> set (roles u)"
          "''visitor'' \<notin> set (roles u)"
    by blast
  then have "(currentRoleOf u \<noteq> [] \<longrightarrow> currentRoleOf u \<in> set (roles u)) \<and>
     (\<forall>r \<in> set (roles u). role_rank r \<le> role_rank (currentRoleOf u)) \<and>
     (currentRoleOf u = [] \<longleftrightarrow> (\<forall>r \<in> set (roles u). role_rank r = 0))"
  proof cases
    case a
    have "\<exists>r \<in> set (roles u). role_rank r \<noteq> 0"
      using a role_rank_names(1) by (intro bexI [of _ "''admin''"]) simp_all
    with a show ?thesis
      by (simp add: currentRoleOf_cases(1) [OF a] role_rank_names role_rank_bounds(1))
  next
    case v
    have "\<exists>r \<in> set (roles u). role_rank r \<noteq> 0"
      using v role_rank_names(2) by (intro bexI [of _ "''volunteer''"]) simp_all
    moreover have "\<forall>r \<in> set (roles u). role_rank r \<le> 2"
      using v(1) by (metis role_rank_bounds(2))
    ultimately show ?thesis
      using v by (simp add: currentRoleOf_cases(2) [OF v] role_rank_names)
  next
    case w
    have "\<exists>r \<in> set (roles u). role_rank r \<noteq> 0"
      using w role_rank_names(3) by (intro bexI [of _ "''visitor''"]) simp_all
    moreover have "\<forall>r \<in> set (roles u). role_rank r \<le> 1"
      using w(1,2) by (metis role_rank_bounds(3))
    ultimately show ?thesis
      using w by (simp add: currentRoleOf_cases(3) [OF w] role_rank_names)
  next
    case n
    have "\<forall>r \<in> set (roles u). role_rank r = 0"
      using n by (metis role_rank_bounds(4))
    then show ?thesis
      by (simp add: currentRoleOf_cases(4) [OF n] role_rank_names)
  qed
  then show "currentRoleOf u \<noteq> [] \<Longrightarrow> currentRoleOf u \<in> set (roles u)"
    and "r \<in> set (roles u) \<Longrightarrow> role_rank r \<le> role_rank (currentRoleOf u)"
    and "currentRoleOf u = [] \<longleftrightarrow> (\<forall>r \<in> set (roles u). role_rank r = 0)"
    by blast+
qed

lemma handleSaveRole_success:
  assumes "pendingRole s userId = Some roleName" and "roleName \<noteq> []"
  shows "users (handleSaveRole (Resolved d None) userId s) =
      map (\<lambda>u. if user_id u = userId then u\<lparr>roles := [roleName]\<rparr> else u) (users s)"
    and "rpc_calls (handleSaveRole (Resolved d None) userId s) = rpc_calls s @ [(userId, roleName)]"
  using assms by (simp_all add: handleSaveRole_def Let_def truthy_str_def or_str_def)

lemma handleSaveRole_no_change:
  "users (handleSaveRole Rejected userId s) = users s"
  "users (handleSaveRole (Resolved d (Some err)) userId s) = users s"
  "pendingRole s userId = None \<Longrightarrow> users (handleSaveRole rpc userId s) = users s"
  "pendingRole s userId = Some [] \<Longrightarrow> users (handleSaveRole rpc userId s) = users s"
  by (simp_all add: handleSaveRole_def Let_def truthy_str_def)

lemma set_single_role_map:
  "\<forall>v \<in> set (map (\<lambda>u. if user_id u = userId then u\<lparr>roles := [roleName]\<rparr> else u)
        (us :: AdminUserRow list)).
     user_id v = userId \<longrightarrow> roles v = [roleName]"
proof -
  have "user_id (if user_id w = userId then w\<lparr>roles := [roleName]\<rparr> else w) = userId \<longrightarrow>
        roles (if user_id w = userId then w\<lparr>roles := [roleName]\<rparr> else w) = [roleName]"
    for w :: AdminUserRow
    by (cases "user_id w = userId") simp_all
  then show ?thesis
    by (simp only: set_map ball_simps(9)) blast
qed

lemma list_of_two:
  assumes "length xs = 2" and "xs ! 0 = a" and "xs ! Suc 0 = b"
  shows "xs = [a, b]"
proof -
  from assms(1) obtain x y where "xs = [x, y]"
    by (metis length_0_conv length_Suc_conv numeral_2_eq_2)
  with assms(2,3) show ?thesis
    by simp
qed

text \<open>
  C9: the role gate derives two booleans from the fetched role names: \<open>canManage\<close> holds
  iff the list contains \<open>admin\<close> or \<open>volunteer\<close>, \<open>isAdmin\<close> iff it contains \<open>admin\<close>.
  Every failure of the fetch (no or empty user id, the \<open>user_roles\<close> query rejecting or
  reporting an error, no role ids among its rows, the \<open>roles\<close> query rejecting or
  reporting an error) sets the empty role list, so both booleans are false.
\<close>

theorem role_gate_fail_closed:
  "(canManage rs \<longleftrightarrow> ''admin'' \<in> set rs \<or> ''volunteer'' \<in> set rs) \<and>
   (isAdmin rs \<longleftrightarrow> ''admin'' \<in> set rs) \<and>
   ((sessionUserId = None \<or> sessionUserId = Some [] \<or>
     (\<exists>uid. sessionUserId = Some uid \<and>
        (userRolesQuery env uid = Rejected \<or>
         (\<exists>d e. userRolesQuery env uid = Resolved d (Some e)) \<or>
         (\<exists>d. userRolesQuery env uid = Resolved d None \<and>
            (roleIdsOf d = [] \<or>
             rolesQuery env (roleIdsOf d) = Rejected \<or>
             (\<exists>d' e. rolesQuery env (roleIdsOf d) = Resolved d' (Some e)))))))
    \<longrightarrow> fetchUserRoles env sessionUserId = [] \<and>
        \<not> canManage (fetchUserRoles env sessionUserId) \<and>
        \<not> isAdmin (fetchUserRoles env sessionUserId))"
proof (intro conjI impI)
  show "canManage rs \<longleftrightarrow> ''admin'' \<in> set rs \<or> ''volunteer'' \<in> set rs"
    by (simp add: canManage_def array_includes_set)
  show "isAdmin rs \<longleftrightarrow> ''admin'' \<in> set rs"
    by (simp add: isAdmin_def array_includes_set)
  assume f: "sessionUserId = None \<or> sessionUserId = Some [] \<or>
     (\<exists>uid. sessionUserId = Some uid \<and>
        (userRolesQuery env uid = Rejected \<or>
         (\<exists>d e. userRolesQuery env uid = Resolved d (Some e)) \<or>
         (\<exists>d. userRolesQuery env uid = Resolved d None \<and>
            (roleIdsOf d = [] \<or>
             rolesQuery env (roleIdsOf d) = Rejected \<or>
             (\<exists>d' e. rolesQuery env (roleIdsOf d) = Resolved d' (Some e))))))"
  then show e: "fetchUserRoles env sessionUserId = []"
    by (auto simp: fetchUserRoles_def Let_def)
  show "\<not> canManage (fetchUserRoles env sessionUserId)"
    and "\<not> isAdmin (fetchUserRoles env sessionUserId)"
    by (simp_all add: e canManage_def isAdmin_def)
qed

theorem role_gate_fail_closed_witness:
  "fetchUserRoles (sample_roles_env\<lparr>userRolesQuery := (\<lambda>uid. Rejected)\<rparr>) (Some ''u1'') = [] \<and>
   \<not> canManage (fetchUserRoles (sample_roles_env\<lparr>userRolesQuery := (\<lambda>uid. Rejected)\<rparr>) (Some ''u1'')) \<and>
   \<not> isAdmin (fetchUserRoles (sample_roles_env\<lparr>userRolesQuery := (\<lambda>uid. Rejected)\<rparr>) (Some ''u1'')) \<and>
   fetchUserRoles sample_roles_env None = [] \<and>
   canManage [''volunteer''] \<and> \<not> isAdmin [''volunteer'']"
  using role_gate_fail_closed [where env = "sample_roles_env\<lparr>userRolesQuery := (\<lambda>uid. Rejected)\<rparr>"
      and sessionUserId = "Some ''u1''" and rs = "[''volunteer'']"]
    role_gate_fail_closed [where env = sample_roles_env and sessionUserId = None
      and rs = "[''volunteer'']"]
  by (simp add: canManage_def isAdmin_def)

text \<open>
  C8: the current role of a user row is the precedence winner among its role names, with
  admin above volunteer above visitor: it is one of the row's roles, no role of the row
  ranks higher, and it is empty exactly when the row has none of the three; a row with
  roles volunteer and admin shows admin. After a successful \<open>handleSaveRole\<close> every local
  row of that user has exactly the chosen role as its role list and the other rows are
  unchanged; one remote call was made. When the remote call fails, or no role was chosen,
  the local rows are unchanged.
\<close>

theorem role_precedence_and_single_role:
  "(currentRoleOf u \<noteq> [] \<longrightarrow>
      currentRoleOf u \<in> set (roles u) \<and>
      (\<forall>r \<in> set (roles u). role_rank r \<le> role_rank (currentRoleOf u))) \<and>
   (currentRoleOf u = [] \<longleftrightarrow> (\<forall>r \<in> set (roles u). role_rank r = 0)) \<and>
   (''admin'' \<in> set (roles u) \<longrightarrow> currentRoleOf u = ''admin'') \<and>
   currentRoleOf (u\<lparr>roles := [''volunteer'', ''admin'']\<rparr>) = ''admin'' \<and>
   (pendingRole s userId = Some roleName \<and> roleName \<noteq> [] \<and> rpc = Resolved d None \<longrightarrow>
      length (users (handleSaveRole rpc userId s)) = length (users s) \<and>
      (\<forall>k < length (users s).
         users (handleSaveRole rpc userId s) ! k =
           (if user_id (users s ! k) = userId then (users s ! k)\<lparr>roles := [roleName]\<rparr>
            else users s ! k)) \<and>
      (\<forall>v \<in> set (users (handleSaveRole rpc userId s)).
         user_id v = userId \<longrightarrow> roles v = [roleName]) \<and>
      rpc_calls (handleSaveRole rpc userId s) = rpc_calls s @ [(userId, roleName)]) \<and>
   (rpc = Rejected \<or> rpc = Resolved d (Some err) \<or>
    pendingRole s userId = None \<or> pendingRole s userId = Some []
      \<longrightarrow> users (handleSaveRole rpc userId s) = users s)"
proof (intro conjI impI)
  show "currentRoleOf u \<in> set (roles u)" if "currentRoleOf u \<noteq> []"
    using that by (rule currentRoleOf_winner(1))
  show "\<forall>r \<in> set (roles u). role_rank r \<le> role_rank (currentRoleOf u)"
    by (simp add: currentRoleOf_winner(2))
  show "currentRoleOf u = [] \<longleftrightarrow> (\<forall>r \<in> set (roles u). role_rank r = 0)"
    by (rule currentRoleOf_winner(3))
  show "currentRoleOf u = ''admin''" if "''admin'' \<in> set (roles u)"
    using that by (rule currentRoleOf_cases(1))
  show "currentRoleOf (u\<lparr>roles := [''volunteer'', ''admin'']\<rparr>) = ''admin''"
    by (rule currentRoleOf_cases(1)) simp
next
  assume a: "pendingRole s userId = Some roleName \<and> roleName \<noteq> [] \<and> rpc = Resolved d None"
  then have p: "pendingRole s userId = Some roleName" and n: "roleName \<noteq> []"
    and r: "rpc = Resolved d None"
    by simp_all
  have u: "users (handleSaveRole rpc userId s) =
      map (\<lambda>u. if user_id u = userId then u\<lparr>roles := [roleName]\<rparr> else u) (users s)"
    unfolding r by (rule handleSaveRole_success(1) [OF p n])
  show "length (users (handleSaveRole rpc userId s)) = length (users s)"
    by (simp add: u)
  show "\<forall>k < length (users s).
         users (handleSaveRole rpc userId s) ! k =
           (if user_id (users s ! k) = userId then (users s ! k)\<lparr>roles := [roleName]\<rparr>
            else users s ! k)"
    by (simp add: u)
  show "\<forall>v \<in> set (users (handleSaveRole rpc userId s)).
         user_id v = userId \<longrightarrow> roles v = [roleName]"
    unfolding u by (rule set_single_role_map)
  show "rpc_calls (handleSaveRole rpc userId s) = rpc_calls s @ [(userId, roleName)]"
    unfolding r by (rule handleSaveRole_success(2) [OF p n])
next
  assume "rpc = Rejected \<or> rpc = Resolved d (Some err) \<or>
    pendingRole s userId = None \<or> pendingRole s userId = Some []"
  then show "users (handleSaveRole rpc userId s) = users s"
    by (elim disjE) (simp_all add: handleSaveRole_no_change)
qed

theorem role_precedence_and_single_role_witness:
  "currentRoleOf (hd sample_users) = ''admin'' \<and>
   map roles (users (handleSaveRole (Resolved None None) ''u1'' sample_admin_state)) =
     [[''visitor''], [''visitor'']] \<and>
   map user_id (users (handleSaveRole (Resolved None None) ''u1'' sample_admin_state)) =
     [''u1'', ''u2''] \<and>
   users (handleSaveRole Rejected ''u1'' sample_admin_state) = sample_users"
proof -
  note t = role_precedence_and_single_role [where u = "hd sample_users" and s = sample_admin_state
      and userId = "''u1''" and roleName = "''visitor''" and d = None and err = "[]"]
  have a: "currentRoleOf (hd sample_users) = ''admin''"
    using t [where rpc = Rejected, THEN conjunct2, THEN conjunct2, THEN conjunct1]
    by (simp add: sample_users_def)
  have p: "pendingRole sample_admin_state ''u1'' = Some ''visitor'' \<and> ''visitor'' \<noteq> [] \<and>
      Resolved None None = (Resolved None None :: unit response)"
    by (simp add: sample_admin_state_def)
  note t2 = t [where rpc = "Resolved None None", THEN conjunct2, THEN conjunct2, THEN conjunct2,
      THEN conjunct2, THEN conjunct1, THEN mp, OF p]
  have l: "length (users sample_admin_state) = 2"
    and u0: "users sample_admin_state ! 0 =
      \<lparr>user_id = ''u1'', email = ''ann@example.org'', roles = [''volunteer'', ''admin'']\<rparr>"
    and u1: "users sample_admin_state ! Suc 0 =
      \<lparr>user_id = ''u2'', email = ''bob@example.org'', roles = [''visitor'']\<rparr>"
    by (simp_all add: sample_admin_state_def sample_users_def)
  from t2 [THEN conjunct1] l
  have n: "length (users (handleSaveRole (Resolved None None) ''u1'' sample_admin_state)) = 2"
    by simp
  from t2 [THEN conjunct2, THEN conjunct1, rule_format, of 0]
  have k0: "users (handleSaveRole (Resolved None None) ''u1'' sample_admin_state) ! 0 =
      \<lparr>user_id = ''u1'', email = ''ann@example.org'', roles = [''visitor'']\<rparr>"
    by (simp add: l u0)
  from t2 [THEN conjunct2, THEN conjunct1, rule_format, of "Suc 0"]
  have k1: "users (handleSaveRole (Resolved None None) ''u1'' sample_admin_state) ! Suc 0 =
      \<lparr>user_id = ''u2'', email = ''bob@example.org'', roles = [''visitor'']\<rparr>"
    by (simp add: l u1)
  from n k0 k1
  have e: "users (handleSaveRole (Resolved None None) ''u1'' sample_admin_state) =
     [\<lparr>user_id = ''u1'', email = ''ann@example.org'', roles = [''visitor'']\<rparr>,
      \<lparr>user_id = ''u2'', email = ''bob@example.org'', roles = [''visitor'']\<rparr>]"
    by (rule list_of_two)
  have r: "users (handleSaveRole Rejected ''u1'' sample_admin_state) = sample_users"
    using t [where rpc = Rejected, THEN conjunct2, THEN conjunct2, THEN conjunct2,
      THEN conjunct2, THEN conjunct2]
    by (simp add: sample_admin_state_def)
  from a e r show ?thesis
    by simp
qed

end
